theory Spec2Isabelle
  imports Complex_Main
begin

section \<open>Python strings\<close>

text \<open>
  A Python \<open>str\<close> is modelled as a \<open>string\<close>; every \<open>char\<close> stands for one code point
  below 256, so the character classes below are the ones of \<open>str.isspace\<close>,
  \<open>str.isdigit\<close> and of the regular expression classes on that range.
\<close>

definition ord :: "char \<Rightarrow> nat" where
  "ord c = of_char c"

text \<open>\<open>str.isspace\<close> on one character; also the class \<open>\s\<close> (and \<open>\S\<close>, negated).\<close>

definition isspace :: "char \<Rightarrow> bool" where
  "isspace c = ((9 \<le> ord c \<and> ord c \<le> 13) \<or> (28 \<le> ord c \<and> ord c \<le> 32)
     \<or> ord c = 133 \<or> ord c = 160)"

text \<open>The decimal digits \<open>0\<close> to \<open>9\<close>: the class \<open>\d\<close> and the digits \<open>int()\<close> reads.\<close>

definition isdecimal :: "char \<Rightarrow> bool" where
  "isdecimal c = (48 \<le> ord c \<and> ord c \<le> 57)"

text \<open>\<open>str.isdigit\<close> on one character: the decimal digits and the superscripts 1, 2, 3.\<close>

definition isdigit_chr :: "char \<Rightarrow> bool" where
  "isdigit_chr c = (isdecimal c \<or> ord c = 178 \<or> ord c = 179 \<or> ord c = 185)"

text \<open>\<open>str.isdigit()\<close>: a non-empty string of such characters.\<close>

definition isdigit :: "string \<Rightarrow> bool" where
  "isdigit s = (s \<noteq> [] \<and> list_all isdigit_chr s)"

text \<open>\<open>str.strip()\<close> with no argument.\<close>

definition strip :: "string \<Rightarrow> string" where
  "strip s = rev (dropWhile isspace (rev (dropWhile isspace s)))"

text \<open>
  \<open>str.split(maxsplit=k)\<close> with no separator: runs of whitespace separate the parts, and
  after \<open>k\<close> splits the rest of the string, without its leading whitespace, is the
  last part.
\<close>

fun split_ws :: "nat \<Rightarrow> string \<Rightarrow> string list" where
  "split_ws k s =
     (let r = dropWhile isspace s in
      if r = [] then []
      else (case k of
              0 \<Rightarrow> [r]
            | Suc k' \<Rightarrow> takeWhile (\<lambda>c. \<not> isspace c) r
                         # split_ws k' (dropWhile (\<lambda>c. \<not> isspace c) r)))"

declare split_ws.simps [simp del]

text \<open>\<open>str.split()\<close> with neither separator nor limit.\<close>

function split_all :: "string \<Rightarrow> string list" where
  "split_all s =
     (let r = dropWhile isspace s in
      if r = [] then []
      else takeWhile (\<lambda>c. \<not> isspace c) r # split_all (dropWhile (\<lambda>c. \<not> isspace c) r))"
  by pat_completeness auto
termination
proof (relation "measure length")
  show "wf (measure length)" by simp
next
  fix s :: string and r
  assume r: "r = dropWhile isspace s" and ne: "r \<noteq> []"
  from ne obtain c cs where rc: "r = c # cs" by (cases r) auto
  have "\<not> isspace c" using r rc by (metis hd_dropWhile list.sel(1) ne)
  then have "length (dropWhile (\<lambda>c. \<not> isspace c) r) < length r"
    using rc by (simp add: le_imp_less_Suc length_dropWhile_le)
  also have "length r \<le> length s" using r by (simp add: length_dropWhile_le)
  finally show "(dropWhile (\<lambda>c. \<not> isspace c) r, s) \<in> measure length" by simp
qed

declare split_all.simps [simp del]

text \<open>
  \<open>int(s)\<close> on a string: surrounding whitespace, an optional sign, then decimal digits,
  where single underscores may stand between digits. \<open>None\<close> is \<open>ValueError\<close>.
  The number of digits is not bounded here: the limit of 4300 digits that Python has
  from version 3.11 on is left out.
\<close>

fun digits_value :: "int \<Rightarrow> string \<Rightarrow> int option" where
  "digits_value acc [] = Some acc"
| "digits_value acc [c] =
     (if isdecimal c then Some (10 * acc + (int (ord c) - 48)) else None)"
| "digits_value acc (c # d # cs) =
     (if isdecimal c then
        (if d = CHR ''_'' then
           (case cs of [] \<Rightarrow> None
            | e # _ \<Rightarrow>
                if isdecimal e then digits_value (10 * acc + (int (ord c) - 48)) cs else None)
         else digits_value (10 * acc + (int (ord c) - 48)) (d # cs))
      else None)"

definition py_int :: "string \<Rightarrow> int option" where
  "py_int s =
     (case strip s of
        [] \<Rightarrow> None
      | c # cs \<Rightarrow>
          if c = CHR ''-'' then
            (if cs = [] then None else map_option uminus (digits_value 0 cs))
          else if c = CHR ''+'' then
            (if cs = [] then None else digits_value 0 cs)
          else digits_value 0 (c # cs))"

text \<open>\<open>str(n)\<close> on an integer; \<open>str_nat\<close> is for the non-negative ones.\<close>

function str_nat :: "int \<Rightarrow> string" where
  "str_nat n =
     (if n < 10 then [char_of (48 + nat n)]
      else str_nat (n div 10) @ [char_of (48 + nat (n mod 10))])"
  by pat_completeness auto
termination
  by (relation "measure nat") auto

declare str_nat.simps [simp del]

definition str_int :: "int \<Rightarrow> string" where
  "str_int i = (if i < 0 then CHR ''-'' # str_nat (- i) else str_nat i)"

section \<open>Dates and times\<close>

text \<open>
  A \<open>datetime\<close> value without zone. \<open>datetime.fromtimestamp\<close> gives the local time: the
  offset of the local zone from UTC at an instant, in seconds, is a parameter
  (\<open>utcoffset\<close> below). The conversion of a day count to a date is the proleptic Gregorian
  calendar that \<open>datetime\<close> uses; years outside 1 to 9999 make \<open>fromtimestamp\<close> raise.
\<close>

record civil =
  year :: int
  month :: int
  day :: int
  hour :: int
  minute :: int
  second :: int

definition civil_from_days :: "int \<Rightarrow> int \<times> int \<times> int" where
  "civil_from_days z0 =
     (let z = z0 + 719468;
          era = z div 146097;
          doe = z mod 146097;
          yoe = (doe - doe div 1460 + doe div 36524 - doe div 146096) div 365;
          doy = doe - (365 * yoe + yoe div 4 - yoe div 100);
          mp = (5 * doy + 2) div 153;
          d = doy - (153 * mp + 2) div 5 + 1;
          m = (if mp < 10 then mp + 3 else mp - 9);
          y = yoe + era * 400 + (if m \<le> 2 then 1 else 0)
      in (y, m, d))"

definition days_from_civil :: "int \<Rightarrow> int \<Rightarrow> int \<Rightarrow> int" where
  "days_from_civil y0 m d =
     (let y = (if m \<le> 2 then y0 - 1 else y0);
          era = y div 400;
          yoe = y mod 400;
          doy = (153 * (if m > 2 then m - 3 else m + 9) + 2) div 5 + d - 1;
          doe = yoe * 365 + yoe div 4 - yoe div 100 + doy
      in era * 146097 + doe - 719468)"

text \<open>The instant, in seconds since the epoch, of a date and time given in UTC.\<close>

definition utc_epoch :: "int \<Rightarrow> int \<Rightarrow> int \<Rightarrow> int \<Rightarrow> int \<Rightarrow> int \<Rightarrow> int" where
  "utc_epoch y m d h mi s = days_from_civil y m d * 86400 + h * 3600 + mi * 60 + s"

definition civil_of_seconds :: "int \<Rightarrow> civil" where
  "civil_of_seconds t =
     (let (y, m, d) = civil_from_days (t div 86400); r = t mod 86400
      in \<lparr> year = y, month = m, day = d,
           hour = r div 3600, minute = (r mod 3600) div 60, second = r mod 60 \<rparr>)"

text \<open>Zero padding of a non-negative number to a width, as \<open>%Y\<close>, \<open>%m\<close>, ... print it.\<close>

definition pad :: "nat \<Rightarrow> int \<Rightarrow> string" where
  "pad w n = (let s = str_nat n in replicate (w - length s) CHR ''0'' @ s)"

text \<open>\<open>dt.strftime("%Y-%m-%d %H:%M:%S")\<close>, with the year in four digits; a C library
  that does not pad \<open>%Y\<close> prints a year below 1000 shorter.\<close>

definition strftime :: "civil \<Rightarrow> string" where
  "strftime dt =
     pad 4 (year dt) @ ''-'' @ pad 2 (month dt) @ ''-'' @ pad 2 (day dt) @ '' '' @
     pad 2 (hour dt) @ '':'' @ pad 2 (minute dt) @ '':'' @ pad 2 (second dt)"

section \<open>Values, records and tables\<close>

text \<open>
  A scalar of a record: null (\<open>None\<close>, \<open>NaN\<close>, \<open>NaT\<close>), a string, a number, or an instant
  (a pandas timestamp, as seconds since the epoch).
\<close>

datatype val = Null | Str string | Num rat | Time int

text \<open>A record is a Python \<open>dict\<close>: keys in insertion order, each bound once.\<close>

type_synonym row = "(string \<times> val) list"

text \<open>\<open>row[k] = v\<close>: a present key keeps its place, a new key goes to the end.\<close>

fun dict_set :: "string \<Rightarrow> val \<Rightarrow> row \<Rightarrow> row" where
  "dict_set k v [] = [(k, v)]"
| "dict_set k v ((k', v') # r) =
     (if k = k' then (k, v) # r else (k', v') # dict_set k v r)"

record table =
  columns :: "string list"
  rows :: "row list"

datatype error = ValueError | OverflowError | KeyError | IndexError | CsvError | OtherError

text \<open>The functions of the standard library and of pandas that the parsers call and
  that are not modelled here: they are parameters.\<close>

text \<open>A parsed JSON value.\<close>

datatype json = JNull | JBool bool | JNum rat | JStr string | JArr "json list"
  | JObj "(string \<times> json) list"

text \<open>
  \<^item> \<open>utcoffset t\<close>: the offset of the local zone at the instant \<open>t\<close>;
  \<^item> \<open>strptime s fmt\<close>: \<open>datetime.strptime\<close>, \<open>None\<close> when it raises;
  \<^item> \<open>to_numeric s\<close>: \<open>pd.to_numeric(..., errors="coerce")\<close> on one string, a number
    or null;
  \<^item> \<open>json_loads s\<close>: \<open>json.loads\<close>, \<open>None\<close> when it raises;
  \<^item> \<open>json_frame vs\<close>: \<open>pd.DataFrame\<close> of a list of parsed JSON values;
  \<^item> \<open>xml_children s\<close>: the tag and text of the children of the element
    \<open>ET.fromstring(s)\<close>, \<open>None\<close> when it raises \<open>ParseError\<close>;
  \<^item> \<open>csv_reader lines\<close>: the rows that \<open>csv.reader(lines)\<close> yields, in order, and
    whether the iteration then ends with an exception instead of stopping.
\<close>

record lib =
  utcoffset :: "int \<Rightarrow> int"
  strptime :: "string \<Rightarrow> string \<Rightarrow> civil option"
  to_numeric :: "string \<Rightarrow> val"
  json_loads :: "string \<Rightarrow> json option"
  json_frame :: "json list \<Rightarrow> error + table"
  xml_children :: "string \<Rightarrow> (string \<times> string option) list option"
  csv_reader :: "string list \<Rightarrow> string list list \<times> bool"

text \<open>\<open>datetime.fromtimestamp(t)\<close>; \<open>None\<close> when it raises.\<close>

definition fromtimestamp :: "lib \<Rightarrow> int \<Rightarrow> civil option" where
  "fromtimestamp L t =
     (let dt = civil_of_seconds (t + utcoffset L t)
      in if 1 \<le> year dt \<and> year dt \<le> 9999 then Some dt else None)"

text \<open>The columns of a frame built from a list of dicts: the keys in the order in which
  they first appear.\<close>

definition first_keys :: "row list \<Rightarrow> string list" where
  "first_keys data = rev (remdups (rev (concat (map (map fst) data))))"

definition fill_row :: "string list \<Rightarrow> row \<Rightarrow> row" where
  "fill_row cols r = map (\<lambda>c. (c, case map_of r c of None \<Rightarrow> Null | Some v \<Rightarrow> v)) cols"

text \<open>\<open>pd.DataFrame(data)\<close> for a list of dicts, and \<open>pd.DataFrame(columns=cols)\<close>.\<close>

definition DataFrame :: "row list \<Rightarrow> table" where
  "DataFrame data = \<lparr> columns = first_keys data, rows = map (fill_row (first_keys data)) data \<rparr>"

definition DataFrame_columns :: "string list \<Rightarrow> table" where
  "DataFrame_columns cols = \<lparr> columns = cols, rows = [] \<rparr>"

text \<open>\<open>df.empty\<close>.\<close>

definition df_empty :: "table \<Rightarrow> bool" where
  "df_empty df = (columns df = [] \<or> rows df = [])"

text \<open>The cell of a record under a column: null when the record has no such key.\<close>

definition cell :: "string \<Rightarrow> row \<Rightarrow> val" where
  "cell c r = (case map_of r c of None \<Rightarrow> Null | Some v \<Rightarrow> v)"

text \<open>\<open>df[name]\<close>, which raises \<open>KeyError\<close> for a missing column.\<close>

definition get_column :: "table \<Rightarrow> string \<Rightarrow> error + val list" where
  "get_column df name =
     (if name \<in> set (columns df)
      then Inr (map (\<lambda>r. case map_of r name of None \<Rightarrow> Null | Some v \<Rightarrow> v) (rows df))
      else Inl KeyError)"

text \<open>\<open>df[name] = values\<close>, for a series of the frame's own length.\<close>

definition set_column :: "string \<Rightarrow> val list \<Rightarrow> table \<Rightarrow> table" where
  "set_column name vs df =
     \<lparr> columns = (if name \<in> set (columns df) then columns df else columns df @ [name]),
       rows = map (\<lambda>(r, v). dict_set name v r) (zip (rows df) vs) \<rparr>"

text \<open>\<open>series.astype(int)\<close> on a column of strings: \<open>int()\<close> of every element, into 64
  bits. One element that is no integer makes the whole call raise.\<close>

fun astype_int :: "val list \<Rightarrow> error + int list" where
  "astype_int [] = Inr []"
| "astype_int (v # vs) =
     (case v of
        Str s \<Rightarrow>
          (case py_int s of
             None \<Rightarrow> Inl ValueError
           | Some n \<Rightarrow>
               if n < - (2 ^ 63) \<or> 2 ^ 63 \<le> n then Inl OverflowError
               else (case astype_int vs of Inl e \<Rightarrow> Inl e | Inr ns \<Rightarrow> Inr (n # ns)))
      | _ \<Rightarrow> Inl ValueError)"

text \<open>\<open>pd.to_datetime(series, unit='s', errors='coerce')\<close> on integers: seconds since the
  epoch, and \<open>NaT\<close> outside the range of a nanosecond timestamp, which is the range of
  pandas 2; a version that keeps the unit of seconds has a wider one.\<close>

definition to_datetime_s :: "int \<Rightarrow> val" where
  "to_datetime_s n = (if - 9223372036 \<le> n \<and> n \<le> 9223372036 then Time n else Null)"

section \<open>The registry of log types (config.py)\<close>

record log_type_spec =
  spec_columns :: "string list"
  datetime_format :: string
  separator :: string
  description :: string

definition DEFAULT_LOG_TYPE :: string where
  "DEFAULT_LOG_TYPE = ''browsing''"

definition LOG_TYPES :: "(string \<times> log_type_spec) list" where
  "LOG_TYPES =
   [(''browsing'',
       \<lparr> spec_columns = [''timestamp'', ''ip_address'', ''username'', ''url'',
            ''bandwidth'', ''status_code'', ''content_type'', ''category'', ''device_info''],
         datetime_format = ''%Y%m%d%H%M%S'', separator = '' '',
         description = ''Web browsing logs with URLs and HTTP status codes'' \<rparr>),
    (''virus'',
       \<lparr> spec_columns = [''timestamp'', ''ip_address'', ''username'', ''virus_name'',
            ''file_path'', ''action_taken'', ''scan_engine'', ''severity''],
         datetime_format = ''%Y%m%d%H%M%S'', separator = '' '',
         description = ''Antivirus detection logs with virus information'' \<rparr>),
    (''mail'',
       \<lparr> spec_columns = [''timestamp'', ''sender'', ''recipient'', ''subject'',
            ''size'', ''status'', ''attachment_count'', ''spam_score''],
         datetime_format = ''%Y%m%d%H%M%S'', separator = '' '',
         description = ''Email server logs with message details'' \<rparr>),
    (''firewall'',
       \<lparr> spec_columns = [''timestamp'', ''action'', ''protocol'', ''src_ip'',
            ''src_port'', ''dst_ip'', ''dst_port'', ''interface'', ''rule_id'', ''description''],
         datetime_format = ''%Y%m%d%H%M%S'', separator = '' '',
         description = ''Firewall logs with connection information'' \<rparr>),
    (''auth'',
       \<lparr> spec_columns = [''timestamp'', ''username'', ''source_ip'', ''service'',
            ''status'', ''auth_method'', ''details''],
         datetime_format = ''%Y%m%d%H%M%S'', separator = '' '',
         description = ''Authentication logs with login attempts'' \<rparr>),
    (''system'',
       \<lparr> spec_columns = [''timestamp'', ''hostname'', ''service'', ''pid'',
            ''level'', ''message''],
         datetime_format = ''%Y%m%d%H%M%S'', separator = '' '',
         description = ''System logs with service information'' \<rparr>),
    (''application'',
       \<lparr> spec_columns = [''timestamp'', ''app_name'', ''level'', ''component'',
            ''thread_id'', ''request_id'', ''message''],
         datetime_format = ''%Y%m%d%H%M%S'', separator = '' '',
         description = ''Application logs with debug information'' \<rparr>),
    (''ids'',
       \<lparr> spec_columns = [''timestamp'', ''alert_id'', ''severity'', ''category'',
            ''src_ip'', ''dst_ip'', ''protocol'', ''signature'', ''description''],
         datetime_format = ''%Y%m%d%H%M%S'', separator = '' '',
         description = ''Intrusion detection system logs'' \<rparr>),
    (''vpn'',
       \<lparr> spec_columns = [''timestamp'', ''username'', ''client_ip'', ''session_id'',
            ''event_type'', ''duration'', ''bytes_in'', ''bytes_out''],
         datetime_format = ''%Y%m%d%H%M%S'', separator = '' '',
         description = ''VPN connection logs with session details'' \<rparr>),
    (''syslog'',
       \<lparr> spec_columns = [''timestamp'', ''hostname'', ''process'', ''pid'', ''message''],
         datetime_format = ''%b %d %H:%M:%S'', separator = '' '',
         description = ''Standard syslog format logs'' \<rparr>),
    (''clf'',
       \<lparr> spec_columns = [''host'', ''ident'', ''authuser'', ''timestamp'', ''method'',
            ''path'', ''protocol'', ''status'', ''bytes_sent'', ''url''],
         datetime_format = ''%d/%b/%Y:%H:%M:%S %z'', separator = '' '',
         description = ''Common Log Format (CLF) web server logs'' \<rparr>),
    (''elf'',
       \<lparr> spec_columns = [], datetime_format = ''%Y-%m-%d %H:%M:%S'', separator = '' '',
         description = ''Extended Log Format (ELF) web server logs'' \<rparr>),
    (''json'',
       \<lparr> spec_columns = [], datetime_format = ''%Y-%m-%d %H:%M:%S'', separator = '''',
         description = ''JSON structured logs'' \<rparr>),
    (''xml'',
       \<lparr> spec_columns = [], datetime_format = ''%Y-%m-%d %H:%M:%S'', separator = '''',
         description = ''XML structured logs'' \<rparr>),
    (''csv'',
       \<lparr> spec_columns = [], datetime_format = ''%Y-%m-%d %H:%M:%S'', separator = '','',
         description = ''CSV structured logs'' \<rparr>)]"

text \<open>\<open>LOG_TYPES.get(t, {}).get("columns", [])\<close> and its two siblings.\<close>

definition columns_of :: "string \<Rightarrow> string list" where
  "columns_of t = (case map_of LOG_TYPES t of None \<Rightarrow> [] | Some sp \<Rightarrow> spec_columns sp)"

definition separator_of :: "string \<Rightarrow> string" where
  "separator_of t = (case map_of LOG_TYPES t of None \<Rightarrow> '' '' | Some sp \<Rightarrow> separator sp)"

definition datetime_format_of :: "string \<Rightarrow> string" where
  "datetime_format_of t =
     (case map_of LOG_TYPES t of None \<Rightarrow> ''%Y%m%d%H%M%S'' | Some sp \<Rightarrow> datetime_format sp)"

section \<open>format\_timestamp (utils.py)\<close>

text \<open>
  A string of digits is read as a number and taken for a Unix timestamp; any other string
  is parsed with the format of the log type. Every exception is caught and gives
  \<open>str(timestamp)\<close>: the string as it came, or the number when \<open>int()\<close> had already
  replaced it.
\<close>

definition format_timestamp :: "lib \<Rightarrow> string \<Rightarrow> string \<Rightarrow> string" where
  "format_timestamp L timestamp log_type =
     (if isdigit timestamp then
        (case py_int timestamp of
           None \<Rightarrow> timestamp
         | Some n \<Rightarrow>
             (case fromtimestamp L n of
                None \<Rightarrow> str_int n
              | Some dt \<Rightarrow> strftime dt))
      else
        (case strptime L timestamp (datetime_format_of log_type) of
           None \<Rightarrow> timestamp
         | Some dt \<Rightarrow> strftime dt))"

section \<open>The fixed-field parsers (log\_parser.py)\<close>

text \<open>
  The unpacking of \<open>parts\<close> into the variables of a parser and the dict built from them:
  the formatted and the raw timestamp first, then the other variables under their names.
  Unpacking raises \<open>ValueError\<close> when the number of parts is not the number of variables.
\<close>

definition unpack_row :: "lib \<Rightarrow> string \<Rightarrow> string list \<Rightarrow> string list \<Rightarrow> error + row" where
  "unpack_row L log_type names parts =
     (if length parts \<noteq> Suc (length names) then Inl ValueError
      else Inr ((''timestamp'', Str (format_timestamp L (hd parts) log_type))
                # (''raw_timestamp'', Str (hd parts))
                # zip names (map Str (tl parts))))"

text \<open>The loop \<open>for line in lines\<close> of a parser: a line gives a record, or nothing, or
  raises.\<close>

fun collect_rows :: "(string \<Rightarrow> error + row option) \<Rightarrow> string list \<Rightarrow> error + row list" where
  "collect_rows f [] = Inr []"
| "collect_rows f (line # lines) =
     (case f line of
        Inl e \<Rightarrow> Inl e
      | Inr None \<Rightarrow> collect_rows f lines
      | Inr (Some r) \<Rightarrow>
          (case collect_rows f lines of Inl e \<Rightarrow> Inl e | Inr data \<Rightarrow> Inr (r # data)))"

definition lift_row :: "error + row \<Rightarrow> error + row option" where
  "lift_row x = (case x of Inl e \<Rightarrow> Inl e | Inr r \<Rightarrow> Inr (Some r))"

definition browsing_line :: "lib \<Rightarrow> string \<Rightarrow> error + row option" where
  "browsing_line L line =
     (let parts = split_ws 8 (strip line) in
      if length parts \<ge> 9 then
        lift_row (unpack_row L ''browsing''
          [''ip_address'', ''username'', ''url'', ''bandwidth'', ''status_code'',
           ''content_type'', ''category'', ''device_info''] parts)
      else Inr None)"

definition virus_line :: "lib \<Rightarrow> string \<Rightarrow> error + row option" where
  "virus_line L line =
     (let parts = split_ws 7 (strip line) in
      if length parts \<ge> 8 then
        lift_row (unpack_row L ''virus''
          [''ip_address'', ''username'', ''virus_name'', ''file_path'', ''action_taken'',
           ''scan_engine'', ''severity''] parts)
      else Inr None)"

definition mail_line :: "lib \<Rightarrow> string \<Rightarrow> error + row option" where
  "mail_line L line =
     (let parts = split_ws 7 (strip line) in
      if length parts \<ge> 8 then
        lift_row (unpack_row L ''mail''
          [''sender'', ''recipient'', ''subject'', ''size'', ''status'',
           ''attachment_count'', ''spam_score''] parts)
      else Inr None)"

definition firewall_line :: "lib \<Rightarrow> string \<Rightarrow> error + row option" where
  "firewall_line L line =
     (let parts = split_ws 9 (strip line) in
      if length parts \<ge> 10 then
        lift_row (unpack_row L ''firewall''
          [''action'', ''protocol'', ''src_ip'', ''src_port'', ''dst_ip'', ''dst_port'',
           ''interface'', ''rule_id'', ''description''] parts)
      else Inr None)"

definition auth_line :: "lib \<Rightarrow> string \<Rightarrow> error + row option" where
  "auth_line L line =
     (let parts = split_ws 6 (strip line) in
      if length parts \<ge> 7 then
        lift_row (unpack_row L ''auth''
          [''username'', ''source_ip'', ''service'', ''status'', ''auth_method'',
           ''details''] parts)
      else Inr None)"

definition system_line :: "lib \<Rightarrow> string \<Rightarrow> error + row option" where
  "system_line L line =
     (let parts = split_ws 5 (strip line) in
      if length parts \<ge> 6 then
        lift_row (unpack_row L ''system''
          [''hostname'', ''service'', ''pid'', ''level'', ''message''] parts)
      else Inr None)"

definition application_line :: "lib \<Rightarrow> string \<Rightarrow> error + row option" where
  "application_line L line =
     (let parts = split_ws 6 (strip line) in
      if length parts \<ge> 7 then
        lift_row (unpack_row L ''application''
          [''app_name'', ''level'', ''component'', ''thread_id'', ''request_id'',
           ''message''] parts)
      else Inr None)"

definition ids_line :: "lib \<Rightarrow> string \<Rightarrow> error + row option" where
  "ids_line L line =
     (let parts = split_ws 8 (strip line) in
      if length parts \<ge> 9 then
        lift_row (unpack_row L ''ids''
          [''alert_id'', ''severity'', ''category'', ''src_ip'', ''dst_ip'', ''protocol'',
           ''signature'', ''description''] parts)
      else Inr None)"

definition vpn_line :: "lib \<Rightarrow> string \<Rightarrow> error + row option" where
  "vpn_line L line =
     (let parts = split_ws 7 (strip line) in
      if length parts \<ge> 8 then
        lift_row (unpack_row L ''vpn''
          [''username'', ''client_ip'', ''session_id'', ''event_type'', ''duration'',
           ''bytes_in'', ''bytes_out''] parts)
      else Inr None)"

text \<open>A parser whose frame is the list of its records, as all but the browsing one are.\<close>

definition frame_of :: "error + row list \<Rightarrow> error + table" where
  "frame_of x = (case x of Inl e \<Rightarrow> Inl e | Inr data \<Rightarrow> Inr (DataFrame data))"

text \<open>\<open>_parse_browsing_logs\<close>: the records, then, when there is one at least, the two
  numeric columns and the \<open>datetime\<close> column, read from the raw timestamps as integers.\<close>

definition browsing_convert :: "lib \<Rightarrow> table \<Rightarrow> error + table" where
  "browsing_convert L df =
     (if df_empty df then Inr df
      else
        (case get_column df ''bandwidth'' of Inl e \<Rightarrow> Inl e | Inr bw \<Rightarrow>
         let df1 = set_column ''bandwidth''
                     (map (\<lambda>v. case v of Str s \<Rightarrow> to_numeric L s | _ \<Rightarrow> v) bw) df in
         (case get_column df1 ''status_code'' of Inl e \<Rightarrow> Inl e | Inr sc \<Rightarrow>
          let df2 = set_column ''status_code''
                      (map (\<lambda>v. case v of Str s \<Rightarrow> to_numeric L s | _ \<Rightarrow> v) sc) df1 in
          (case get_column df2 ''raw_timestamp'' of Inl e \<Rightarrow> Inl e | Inr raw \<Rightarrow>
           (case astype_int raw of Inl e \<Rightarrow> Inl e | Inr ns \<Rightarrow>
              Inr (set_column ''datetime'' (map to_datetime_s ns) df2))))))"

definition parse_browsing_logs :: "lib \<Rightarrow> string list \<Rightarrow> error + table" where
  "parse_browsing_logs L lines =
     (case collect_rows (browsing_line L) lines of
        Inl e \<Rightarrow> Inl e
      | Inr data \<Rightarrow> browsing_convert L (DataFrame data))"

definition parse_virus_logs :: "lib \<Rightarrow> string list \<Rightarrow> error + table" where
  "parse_virus_logs L lines = frame_of (collect_rows (virus_line L) lines)"

definition parse_mail_logs :: "lib \<Rightarrow> string list \<Rightarrow> error + table" where
  "parse_mail_logs L lines = frame_of (collect_rows (mail_line L) lines)"

definition parse_firewall_logs :: "lib \<Rightarrow> string list \<Rightarrow> error + table" where
  "parse_firewall_logs L lines = frame_of (collect_rows (firewall_line L) lines)"

definition parse_auth_logs :: "lib \<Rightarrow> string list \<Rightarrow> error + table" where
  "parse_auth_logs L lines = frame_of (collect_rows (auth_line L) lines)"

definition parse_system_logs :: "lib \<Rightarrow> string list \<Rightarrow> error + table" where
  "parse_system_logs L lines = frame_of (collect_rows (system_line L) lines)"

definition parse_application_logs :: "lib \<Rightarrow> string list \<Rightarrow> error + table" where
  "parse_application_logs L lines = frame_of (collect_rows (application_line L) lines)"

definition parse_ids_logs :: "lib \<Rightarrow> string list \<Rightarrow> error + table" where
  "parse_ids_logs L lines = frame_of (collect_rows (ids_line L) lines)"

definition parse_vpn_logs :: "lib \<Rightarrow> string list \<Rightarrow> error + table" where
  "parse_vpn_logs L lines = frame_of (collect_rows (vpn_line L) lines)"

text \<open>What is left of a string after its first \<open>k\<close> parts and the whitespace that
  follows them: the last part of \<open>split_ws k\<close> when there are more than \<open>k\<close> parts.\<close>

fun rest_after :: "nat \<Rightarrow> string \<Rightarrow> string" where
  "rest_after 0 s = dropWhile isspace s"
| "rest_after (Suc k) s = rest_after k (dropWhile (\<lambda>c. \<not> isspace c) (dropWhile isspace s))"


text \<open>The record of a line that has enough parts: the timestamp twice, formatted and raw,
  then the other columns of the type in order, the last one with the rest of the line.\<close>

definition fixed_field_row :: "lib \<Rightarrow> string \<Rightarrow> string \<Rightarrow> row" where
  "fixed_field_row L t line =
     (let n = length (columns_of t); toks = split_all (strip line) in
        (''timestamp'', Str (format_timestamp L (hd toks) t))
        # (''raw_timestamp'', Str (hd toks))
        # zip (tl (columns_of t))
             (map Str (tl (take (n - 1) toks) @ [rest_after (n - 1) (strip line)])))"

section \<open>The CSV parser\<close>

text \<open>\<open>str.split(sep)\<close> with a separator: \<open>ValueError\<close> for the empty separator, else the
  pieces between the occurrences of \<open>sep\<close>, found from the left.\<close>

function split_from :: "string \<Rightarrow> string \<Rightarrow> string \<Rightarrow> string list" where
  "split_from sep acc s =
     (if sep = [] \<or> s = [] then [rev acc]
      else if take (length sep) s = sep then rev acc # split_from sep [] (drop (length sep) s)
      else split_from sep (hd s # acc) (tl s))"
  by pat_completeness auto
termination
  by (relation "measure (\<lambda>(sep, acc, s). length s)") auto

declare split_from.simps [simp del]

definition split_sep :: "string \<Rightarrow> string \<Rightarrow> error + string list" where
  "split_sep sep s = (if sep = [] then Inl ValueError else Inr (split_from sep [] s))"

text \<open>The dict of one data row: the values at the positions of the header, under the
  header's names; \<open>enumerate\<close> numbers the values from 0.\<close>

definition csv_row_dict :: "string list \<Rightarrow> string list \<Rightarrow> row" where
  "csv_row_dict header r =
     fold (\<lambda>(i, v) d. if i < length header then dict_set (header ! i) (Str v) d else d)
       (List.enumerate 0 r) []"

text \<open>\<open>_parse_csv_format\<close>. The first row of the reader is the header; without one, or
  with an empty one, the result is the empty frame and the reader is not asked for more.\<close>

definition parse_csv_format :: "lib \<Rightarrow> string list \<Rightarrow> error + table" where
  "parse_csv_format L lines =
     (case csv_reader L lines of
        ([], raises) \<Rightarrow> if raises then Inl CsvError else Inr (DataFrame [])
      | (header # rest, raises) \<Rightarrow>
          if header = [] then Inr (DataFrame [])
          else if raises then Inl CsvError
          else Inr (DataFrame (filter (\<lambda>d. d \<noteq> []) (map (csv_row_dict header) rest))))"

section \<open>Regular expressions\<close>

text \<open>
  The class \<open>\w\<close>: the characters for which \<open>str.isalnum\<close> holds, and the underscore.
  Below 256 the alphanumeric characters are the ASCII letters and digits, the two ordinal
  indicators, the micro sign, the superscripts and fractions, and the accented letters.
\<close>

definition isalnum :: "char \<Rightarrow> bool" where
  "isalnum c =
     (let n = ord c in
      (48 \<le> n \<and> n \<le> 57) \<or> (65 \<le> n \<and> n \<le> 90) \<or> (97 \<le> n \<and> n \<le> 122)
      \<or> n = 170 \<or> n = 178 \<or> n = 179 \<or> n = 181 \<or> n = 185 \<or> n = 186
      \<or> (188 \<le> n \<and> n \<le> 190) \<or> (192 \<le> n \<and> n \<le> 214)
      \<or> (216 \<le> n \<and> n \<le> 246) \<or> (248 \<le> n \<and> n \<le> 255))"

definition isword :: "char \<Rightarrow> bool" where
  "isword c = (isalnum c \<or> c = CHR ''_'')"

text \<open>\<open>str.lower()\<close> on one character.\<close>

definition lower_chr :: "char \<Rightarrow> char" where
  "lower_chr c =
     (let n = ord c in
      if (65 \<le> n \<and> n \<le> 90) \<or> (192 \<le> n \<and> n \<le> 214) \<or> (216 \<le> n \<and> n \<le> 222)
      then char_of (n + 32) else c)"

definition lower :: "string \<Rightarrow> string" where
  "lower s = map lower_chr s"

definition startswith :: "string \<Rightarrow> string \<Rightarrow> bool" where
  "startswith pre s = (take (length pre) s = pre)"

text \<open>
  The patterns of the parser that are matched from the start of a line are sequences of
  these items: one character of a class, a greedy repetition of a class, an optional
  group, the start and the end of a capturing group, and \<open>$\<close>.
\<close>

datatype atom = Ch "char \<Rightarrow> bool" | Star "char \<Rightarrow> bool" | Opt "atom list"
  | GOpen nat | GClose nat | Eos

fun asize :: "atom \<Rightarrow> nat" where
  "asize (Opt as) = Suc (sum_list (map asize as))"
| "asize (Ch p) = 1"
| "asize (Star p) = 1"
| "asize (GOpen n) = 1"
| "asize (GClose n) = 1"
| "asize Eos = 1"

text \<open>
  \<open>re.match\<close>: a backtracking match from the start of the string, the longer repetition
  and the present option tried first. The result holds the text of the groups that took
  part in the match. \<open>$\<close> matches at the end and before a final newline.
\<close>

function rmatch :: "atom list \<Rightarrow> string \<Rightarrow> (nat \<times> string) list \<Rightarrow> (nat \<times> string) list
    \<Rightarrow> (nat \<times> string) list option" where
  "rmatch [] s op cl = Some cl"
| "rmatch (Ch p # k) s op cl =
     (case s of [] \<Rightarrow> None | c # cs \<Rightarrow> if p c then rmatch k cs op cl else None)"
| "rmatch (Star p # k) s op cl =
     (case s of
        [] \<Rightarrow> rmatch k [] op cl
      | c # cs \<Rightarrow>
          if p c then
            (case rmatch (Star p # k) cs op cl of
               Some r \<Rightarrow> Some r
             | None \<Rightarrow> rmatch k (c # cs) op cl)
          else rmatch k (c # cs) op cl)"
| "rmatch (Opt as # k) s op cl =
     (case rmatch (as @ k) s op cl of Some r \<Rightarrow> Some r | None \<Rightarrow> rmatch k s op cl)"
| "rmatch (GOpen n # k) s op cl = rmatch k s ((n, s) # op) cl"
| "rmatch (GClose n # k) s op cl =
     (case map_of op n of
        None \<Rightarrow> None
      | Some st \<Rightarrow> rmatch k s op ((n, take (length st - length s) st) # cl))"
| "rmatch (Eos # k) s op cl = (if s = [] \<or> s = [CHR 0x0A] then rmatch k s op cl else None)"
  by pat_completeness auto
termination
  by (relation "measures [\<lambda>(p, s, op, cl). length s, \<lambda>(p, s, op, cl). sum_list (map asize p)]")
     auto

definition re_match :: "atom list \<Rightarrow> string \<Rightarrow> (nat \<times> string) list option" where
  "re_match pat s = rmatch pat s [] []"

text \<open>\<open>match.group(n)\<close> of a group that took part, and \<open>None\<close> rendered as the empty string
  for one that did not.\<close>

definition grp :: "(nat \<times> string) list \<Rightarrow> nat \<Rightarrow> string" where
  "grp g n = (case map_of g n of None \<Rightarrow> [] | Some x \<Rightarrow> x)"

definition nonspace :: "char \<Rightarrow> bool" where
  "nonspace c = (\<not> isspace c)"

definition lit :: "char \<Rightarrow> atom" where
  "lit c = Ch (\<lambda>x. x = c)"

definition space_or_digit :: "char \<Rightarrow> bool" where
  "space_or_digit c = (c = CHR '' '' \<or> isdecimal c)"

definition anychar :: "char \<Rightarrow> bool" where
  "anychar c = (c \<noteq> CHR 0x0A)"

text \<open>The parts that the syslog patterns share: \<open>\w{3} [ 0-9]\d \d{2}:\d{2}:\d{2}\<close>.\<close>

definition syslog_stamp :: "atom list" where
  "syslog_stamp =
     [Ch isword, Ch isword, Ch isword, lit CHR '' '', Ch space_or_digit, Ch isdecimal,
      lit CHR '' '', Ch isdecimal, Ch isdecimal, lit CHR '':'', Ch isdecimal, Ch isdecimal,
      lit CHR '':'', Ch isdecimal, Ch isdecimal]"

text \<open>\<open>^\w{3} [ 0-9]\d \d{2}:\d{2}:\d{2} \S+ \S+(\[\d+\])?:\<close>, of the classifier.\<close>

definition syslog_detect :: "atom list" where
  "syslog_detect =
     syslog_stamp @
     [lit CHR '' '', Ch nonspace, Star nonspace, lit CHR '' '', Ch nonspace, Star nonspace,
      Opt [GOpen 1, lit CHR ''['', Ch isdecimal, Star isdecimal, lit CHR '']'', GClose 1],
      lit CHR '':'']"

text \<open>\<open>^(\w{3} [ 0-9]\d \d{2}:\d{2}:\d{2}) (\S+) (\S+)(?:\[(\d+)\])?: (.*)$\<close>, of the
  syslog parser.\<close>

definition syslog_pattern :: "atom list" where
  "syslog_pattern =
     [GOpen 1] @ syslog_stamp @
     [GClose 1, lit CHR '' '', GOpen 2, Ch nonspace, Star nonspace, GClose 2,
      lit CHR '' '', GOpen 3, Ch nonspace, Star nonspace, GClose 3,
      Opt [lit CHR ''['', GOpen 4, Ch isdecimal, Star isdecimal, GClose 4, lit CHR '']''],
      lit CHR '':'', lit CHR '' '', GOpen 5, Star anychar, GClose 5, Eos]"

text \<open>\<open>^\S+ \S+ \S+ \[\d+/\w+/\d+:\d+:\d+:\d+ [+-]\d+\] "\S+ \S+ \S+" \d+ \d+$\<close>, of
  the classifier.\<close>

definition clf_detect :: "atom list" where
  "clf_detect =
     [Ch nonspace, Star nonspace, lit CHR '' '', Ch nonspace, Star nonspace, lit CHR '' '',
      Ch nonspace, Star nonspace, lit CHR '' '', lit CHR ''['',
      Ch isdecimal, Star isdecimal, lit CHR ''/'', Ch isword, Star isword, lit CHR ''/'',
      Ch isdecimal, Star isdecimal, lit CHR '':'', Ch isdecimal, Star isdecimal,
      lit CHR '':'', Ch isdecimal, Star isdecimal, lit CHR '':'', Ch isdecimal, Star isdecimal,
      lit CHR '' '', Ch (\<lambda>c. c = CHR ''+'' \<or> c = CHR ''-''), Ch isdecimal, Star isdecimal,
      lit CHR '']'', lit CHR '' '', lit CHR 0x22,
      Ch nonspace, Star nonspace, lit CHR '' '', Ch nonspace, Star nonspace, lit CHR '' '',
      Ch nonspace, Star nonspace, lit CHR 0x22, lit CHR '' '',
      Ch isdecimal, Star isdecimal, lit CHR '' '', Ch isdecimal, Star isdecimal, Eos]"

text \<open>\<open>^(\S+) (\S+) (\S+) \[([^]]+)\] "([^"]*)" (\d+) (\d+)$\<close>, of the CLF parser.\<close>

definition clf_pattern :: "atom list" where
  "clf_pattern =
     [GOpen 1, Ch nonspace, Star nonspace, GClose 1, lit CHR '' '',
      GOpen 2, Ch nonspace, Star nonspace, GClose 2, lit CHR '' '',
      GOpen 3, Ch nonspace, Star nonspace, GClose 3, lit CHR '' '', lit CHR ''['',
      GOpen 4, Ch (\<lambda>c. c \<noteq> CHR '']''), Star (\<lambda>c. c \<noteq> CHR '']''), GClose 4,
      lit CHR '']'', lit CHR '' '', lit CHR 0x22,
      GOpen 5, Star (\<lambda>c. c \<noteq> CHR 0x22), GClose 5, lit CHR 0x22, lit CHR '' '',
      GOpen 6, Ch isdecimal, Star isdecimal, GClose 6, lit CHR '' '',
      GOpen 7, Ch isdecimal, Star isdecimal, GClose 7, Eos]"

text \<open>\<open>re.search\<close> for an alternative of plain words: one of them occurs in the string.\<close>

fun contains :: "string \<Rightarrow> string \<Rightarrow> bool" where
  "contains w [] = (w = [])"
| "contains w (c # cs) = (startswith w (c # cs) \<or> contains w cs)"

definition search_any :: "string list \<Rightarrow> string \<Rightarrow> bool" where
  "search_any ws s = list_ex (\<lambda>w. contains w s) ws"

text \<open>The same with \<open>re.IGNORECASE\<close>, for words written in lower case.\<close>

definition search_any_ci :: "string list \<Rightarrow> string \<Rightarrow> bool" where
  "search_any_ci ws s = search_any ws (lower s)"

text \<open>\<open>re.search(r'\b[1-5][0-9]{2}\b', s)\<close>: three digits, the first from 1 to 5, with no
  word character before or after. The flag says whether the character before is one.\<close>

fun status_from :: "bool \<Rightarrow> string \<Rightarrow> bool" where
  "status_from prev [] = False"
| "status_from prev (c # cs) =
     ((\<not> prev \<and> 49 \<le> ord c \<and> ord c \<le> 53 \<and>
       (case cs of
          d # e # rest \<Rightarrow>
            isdecimal d \<and> isdecimal e \<and> (case rest of [] \<Rightarrow> True | f # _ \<Rightarrow> \<not> isword f)
        | _ \<Rightarrow> False))
      \<or> status_from (isword c) cs)"

definition search_status :: "string \<Rightarrow> bool" where
  "search_status s = status_from False s"

section \<open>The parser object and the classifier\<close>

text \<open>The fields of a \<open>LogParser\<close>. A method that assigns to them returns the new object.\<close>

record parser =
  log_type :: string
  pcolumns :: "string list"
  pseparator :: string
  pdatetime_format :: string

text \<open>The three assignments that follow a change of \<open>log_type\<close>.\<close>

definition update_settings :: "parser \<Rightarrow> parser" where
  "update_settings p =
     p \<lparr> pcolumns := columns_of (log_type p),
         pseparator := separator_of (log_type p),
         pdatetime_format := datetime_format_of (log_type p) \<rparr>"

text \<open>\<open>LogParser(log_type)\<close>: \<open>log_type or DEFAULT_LOG_TYPE\<close>, so that \<open>None\<close> and the empty
  string both give the default.\<close>

definition LogParser :: "string option \<Rightarrow> parser" where
  "LogParser lt =
     update_settings
       \<lparr> log_type = (case lt of None \<Rightarrow> DEFAULT_LOG_TYPE
                      | Some t \<Rightarrow> if t = [] then DEFAULT_LOG_TYPE else t),
         pcolumns = [], pseparator = [], pdatetime_format = [] \<rparr>"

text \<open>The tests on one line, in the order of the source; the first that holds names the
  type.\<close>

definition is_browsing_line :: "string \<Rightarrow> bool" where
  "is_browsing_line line =
     (search_any [''http://'', ''https://'', ''www.'', ''.com'', ''.org'', ''.net'', ''.edu'',
                  ''.gov''] line
      \<and> search_status line)"

definition is_virus_line :: "string \<Rightarrow> bool" where
  "is_virus_line line =
     search_any_ci [''virus'', ''malware'', ''trojan'', ''infected'', ''quarantine''] line"

definition is_mail_line :: "string \<Rightarrow> bool" where
  "is_mail_line line =
     search_any_ci [''@'', ''sender'', ''recipient'', ''subject'', ''spam'', ''mail''] line"

definition line_type :: "string \<Rightarrow> string option" where
  "line_type line =
     (if is_browsing_line line then Some ''browsing''
      else if is_virus_line line then Some ''virus''
      else if is_mail_line line then Some ''mail''
      else if search_any_ci [''firewall'', ''allow'', ''deny'', ''block'', ''accept'', ''drop'',
                ''src'', ''dst'', ''port''] line then Some ''firewall''
      else if search_any_ci [''login'', ''logout'', ''auth'', ''failed'', ''success'', ''user'',
                ''password'', ''session''] line then Some ''auth''
      else if search_any_ci [''system'', ''kernel'', ''daemon'', ''cron'', ''service'', ''start'',
                ''stop'', ''restart''] line then Some ''system''
      else if search_any_ci [''error'', ''warning'', ''info'', ''debug'', ''trace'', ''exception'',
                ''stack''] line then Some ''application''
      else if search_any_ci [''intrusion'', ''detection'', ''prevention'', ''alert'',
                ''signature'', ''attack''] line then Some ''ids''
      else if search_any_ci [''vpn'', ''tunnel'', ''connect'', ''disconnect'', ''remote'',
                ''client''] line then Some ''vpn''
      else None)"

text \<open>The loop over the sample: the type of the first line that has one.\<close>

fun first_line_type :: "string list \<Rightarrow> string option" where
  "first_line_type [] = None"
| "first_line_type (line # lines) =
     (case line_type line of Some t \<Rightarrow> Some t | None \<Rightarrow> first_line_type lines)"

text \<open>
  \<open>_detect_log_format_from_content\<close>. The four structured tests look at the first line
  and return at once, without the assignments at the end of the method; otherwise the
  loop runs, and the settings are set from the type that stands then.
\<close>

definition detect_log_format_from_content :: "lib \<Rightarrow> parser \<Rightarrow> string list \<Rightarrow> parser" where
  "detect_log_format_from_content L p sample_lines =
     (if sample_lines \<noteq> [] \<and> startswith ''{'' (strip (hd sample_lines))
         \<and> json_loads L (hd sample_lines) \<noteq> None
      then p \<lparr> log_type := ''json'' \<rparr>
      else if sample_lines \<noteq> [] \<and> re_match clf_detect (strip (hd sample_lines)) \<noteq> None
      then p \<lparr> log_type := ''clf'' \<rparr>
      else if sample_lines \<noteq> [] \<and> startswith ''#Fields:'' (strip (hd sample_lines))
      then p \<lparr> log_type := ''elf'' \<rparr>
      else if sample_lines \<noteq> [] \<and> re_match syslog_detect (strip (hd sample_lines)) \<noteq> None
      then p \<lparr> log_type := ''syslog'' \<rparr>
      else
        update_settings
          (case first_line_type sample_lines of
             Some t \<Rightarrow> p \<lparr> log_type := t \<rparr>
           | None \<Rightarrow> p))"

section \<open>The structured parsers\<close>

definition syslog_line :: "string \<Rightarrow> row option" where
  "syslog_line line =
     (case re_match syslog_pattern (strip line) of
        None \<Rightarrow> None
      | Some g \<Rightarrow>
          Some [(''timestamp'', Str (grp g 1)), (''hostname'', Str (grp g 2)),
                (''process'', Str (grp g 3)), (''pid'', Str (grp g 4)),
                (''message'', Str (grp g 5))])"

definition parse_syslog_format :: "string list \<Rightarrow> error + table" where
  "parse_syslog_format lines = Inr (DataFrame (List.map_filter syslog_line lines))"

text \<open>The request of a CLF line is split at whitespace; a missing part is the empty
  string.\<close>

definition nth_or_empty :: "string list \<Rightarrow> nat \<Rightarrow> string" where
  "nth_or_empty xs i = (if i < length xs then xs ! i else [])"

definition clf_line :: "string \<Rightarrow> row option" where
  "clf_line line =
     (case re_match clf_pattern (strip line) of
        None \<Rightarrow> None
      | Some g \<Rightarrow>
          (let request_parts = split_all (grp g 5);
               path = nth_or_empty request_parts 1
           in Some [(''host'', Str (grp g 1)), (''ident'', Str (grp g 2)),
                    (''authuser'', Str (grp g 3)), (''timestamp'', Str (grp g 4)),
                    (''method'', Str (nth_or_empty request_parts 0)), (''path'', Str path),
                    (''protocol'', Str (nth_or_empty request_parts 2)),
                    (''status'', Str (grp g 6)), (''bytes_sent'', Str (grp g 7)),
                    (''url'', Str path)]))"

definition parse_common_log_format :: "string list \<Rightarrow> error + table" where
  "parse_common_log_format lines = Inr (DataFrame (List.map_filter clf_line lines))"

text \<open>\<open>row.get(k, "")\<close> on a dict of strings.\<close>

definition get_str :: "row \<Rightarrow> string \<Rightarrow> string" where
  "get_str r k = (case map_of r k of Some (Str s) \<Rightarrow> s | _ \<Rightarrow> [])"

text \<open>
  The dict of the parts of a line under the given names, as the ELF parser and the
  generic parser build it: a part beyond the names is appended, after a space, to the
  value of the last name, if there is a name at all.
\<close>

definition overflow_row :: "string list \<Rightarrow> string list \<Rightarrow> row" where
  "overflow_row names parts =
     fold (\<lambda>(i, part) r.
             if i < length names then dict_set (names ! i) (Str part) r
             else if names \<noteq> []
               then dict_set (last names) (Str (get_str r (last names) @ '' '' @ part)) r
             else r)
       (List.enumerate 0 parts) []"

text \<open>The loop of \<open>_parse_extended_log_format\<close>, with the field names read so far.\<close>

fun elf_rows :: "string list \<Rightarrow> string list \<Rightarrow> row list" where
  "elf_rows field_names [] = []"
| "elf_rows field_names (l # lines) =
     (let line = strip l in
      if line = [] then elf_rows field_names lines
      else if startswith ''#'' line then
        (if startswith ''#Fields:'' line
         then elf_rows (split_all (strip (drop 8 line))) lines
         else elf_rows field_names lines)
      else if field_names \<noteq> [] then
        (let r = overflow_row field_names (split_all line) in
         if r \<noteq> [] then
           (case map_of r ''cs-uri-stem'' of
              Some v \<Rightarrow> dict_set ''url'' v r
            | None \<Rightarrow> r) # elf_rows field_names lines
         else elf_rows field_names lines)
      else elf_rows field_names lines)"

definition parse_extended_log_format :: "string list \<Rightarrow> error + table" where
  "parse_extended_log_format lines = Inr (DataFrame (elf_rows [] lines))"

text \<open>\<open>_parse_json_format\<close>: the lines that are JSON, parsed, in a frame.\<close>

definition parse_json_format :: "lib \<Rightarrow> string list \<Rightarrow> error + table" where
  "parse_json_format L lines =
     json_frame L (List.map_filter (\<lambda>line. json_loads L (strip line)) lines)"

definition xml_line :: "lib \<Rightarrow> string \<Rightarrow> row option" where
  "xml_line L line =
     (case xml_children L (strip line) of
        None \<Rightarrow> None
      | Some children \<Rightarrow>
          (let r = fold (\<lambda>(tag, text) r.
                     dict_set tag (case text of None \<Rightarrow> Null | Some s \<Rightarrow> Str s) r) children []
           in if r \<noteq> [] then Some r else None))"

definition parse_xml_format :: "lib \<Rightarrow> string list \<Rightarrow> error + table" where
  "parse_xml_format L lines = Inr (DataFrame (List.map_filter (xml_line L) lines))"

text \<open>\<open>_parse_generic_logs\<close>, with the separator and the columns of the parser object.\<close>

definition generic_line :: "parser \<Rightarrow> string \<Rightarrow> error + row option" where
  "generic_line p line =
     (case split_sep (pseparator p) (strip line) of
        Inl e \<Rightarrow> Inl e
      | Inr parts \<Rightarrow>
          (let r = overflow_row (pcolumns p) parts in Inr (if r \<noteq> [] then Some r else None)))"

definition parse_generic_logs :: "parser \<Rightarrow> string list \<Rightarrow> error + table" where
  "parse_generic_logs p lines = frame_of (collect_rows (generic_line p) lines)"

section \<open>Dispatch\<close>

text \<open>The chain of \<open>parse_file\<close>, which has no branch for \<open>application\<close>, and the chain of
  \<open>parse_uploaded_file\<close>, which has one.\<close>

definition dispatch_file :: "lib \<Rightarrow> parser \<Rightarrow> string list \<Rightarrow> error + table" where
  "dispatch_file L p lines =
     (let t = log_type p in
      if t = ''browsing'' then parse_browsing_logs L lines
      else if t = ''virus'' then parse_virus_logs L lines
      else if t = ''mail'' then parse_mail_logs L lines
      else if t = ''firewall'' then parse_firewall_logs L lines
      else if t = ''auth'' then parse_auth_logs L lines
      else if t = ''system'' then parse_system_logs L lines
      else if t = ''ids'' then parse_ids_logs L lines
      else if t = ''vpn'' then parse_vpn_logs L lines
      else if t = ''syslog'' then parse_syslog_format lines
      else if t = ''clf'' then parse_common_log_format lines
      else if t = ''elf'' then parse_extended_log_format lines
      else if t = ''json'' then parse_json_format L lines
      else if t = ''xml'' then parse_xml_format L lines
      else if t = ''csv'' then parse_csv_format L lines
      else parse_generic_logs p lines)"

definition dispatch_uploaded :: "lib \<Rightarrow> parser \<Rightarrow> string list \<Rightarrow> error + table" where
  "dispatch_uploaded L p lines =
     (let t = log_type p in
      if t = ''browsing'' then parse_browsing_logs L lines
      else if t = ''virus'' then parse_virus_logs L lines
      else if t = ''mail'' then parse_mail_logs L lines
      else if t = ''firewall'' then parse_firewall_logs L lines
      else if t = ''auth'' then parse_auth_logs L lines
      else if t = ''system'' then parse_system_logs L lines
      else if t = ''application'' then parse_application_logs L lines
      else if t = ''ids'' then parse_ids_logs L lines
      else if t = ''vpn'' then parse_vpn_logs L lines
      else if t = ''syslog'' then parse_syslog_format lines
      else if t = ''clf'' then parse_common_log_format lines
      else if t = ''elf'' then parse_extended_log_format lines
      else if t = ''json'' then parse_json_format L lines
      else if t = ''xml'' then parse_xml_format L lines
      else if t = ''csv'' then parse_csv_format L lines
      else parse_generic_logs p lines)"

section \<open>Files\<close>

text \<open>
  What the operating system and the readers of the standard library give for a path;
  \<open>None\<close> is an exception. Bytes are characters too.
  \<^item> \<open>open_sample\<close>: \<open>open(path, 'r')\<close> and five times \<open>readline()\<close>;
  \<^item> \<open>open_header\<close>: \<open>open(path, 'rb').read(8)\<close>;
  \<^item> \<open>open_first_line\<close>: \<open>open(path, 'r', errors='ignore').readline()\<close>;
  \<^item> \<open>read_plain\<close>: the lines of the file read as UTF-8 text, errors ignored;
  \<^item> \<open>read_gzip\<close>, \<open>read_bz2\<close>, \<open>read_zip\<close>, \<open>read_json\<close>, \<open>read_xml\<close>, \<open>read_csv\<close>,
    \<open>read_binary\<close>: the lines that the branch of that format in
    \<open>_read_file_by_format\<close> computes.
\<close>

record fsys =
  open_sample :: "string \<Rightarrow> string list option"
  open_header :: "string \<Rightarrow> string option"
  open_first_line :: "string \<Rightarrow> string option"
  read_plain :: "string \<Rightarrow> string list option"
  read_gzip :: "string \<Rightarrow> string list option"
  read_bz2 :: "string \<Rightarrow> string list option"
  read_zip :: "string \<Rightarrow> string list option"
  read_json :: "string \<Rightarrow> string list option"
  read_xml :: "string \<Rightarrow> string list option"
  read_csv :: "string \<Rightarrow> string list option"
  read_binary :: "string \<Rightarrow> string list option"

text \<open>\<open>os.path.splitext(p)[1]\<close> with \<open>/\<close> as the separator: the last dot of the last
  component starts the extension, unless only dots stand before it there.\<close>

definition splitext_ext :: "string \<Rightarrow> string" where
  "splitext_ext p =
     (let base = rev (takeWhile (\<lambda>c. c \<noteq> CHR ''/'') (rev p)) in
      if CHR ''.'' \<notin> set base then []
      else
        (let tail = rev (takeWhile (\<lambda>c. c \<noteq> CHR ''.'') (rev base));
             stem = take (length base - Suc (length tail)) base
         in if list_all (\<lambda>c. c = CHR ''.'') stem then [] else CHR ''.'' # tail))"

text \<open>\<open>detect_log_type\<close> of utils.py: three of the tests, on the first five lines.\<close>

fun sample_type :: "string list \<Rightarrow> string option" where
  "sample_type [] = None"
| "sample_type (line # lines) =
     (if is_browsing_line line then Some ''browsing''
      else if is_virus_line line then Some ''virus''
      else if is_mail_line line then Some ''mail''
      else sample_type lines)"

definition detect_log_type :: "fsys \<Rightarrow> string \<Rightarrow> string" where
  "detect_log_type F file_path =
     (case open_sample F file_path of
        None \<Rightarrow> DEFAULT_LOG_TYPE
      | Some sample_lines \<Rightarrow>
          (case sample_type sample_lines of Some t \<Rightarrow> t | None \<Rightarrow> DEFAULT_LOG_TYPE))"

text \<open>The format that an extension names.\<close>

definition format_of_ext :: "string \<Rightarrow> string option" where
  "format_of_ext file_ext =
     (if file_ext \<in> set [''.gz'', ''.gzip''] then Some ''gzip''
      else if file_ext \<in> set [''.bz2'', ''.bzip2''] then Some ''bz2''
      else if file_ext \<in> set [''.zip''] then Some ''zip''
      else if file_ext \<in> set [''.json''] then Some ''json''
      else if file_ext \<in> set [''.xml''] then Some ''xml''
      else if file_ext \<in> set [''.csv''] then Some ''csv''
      else None)"

text \<open>The format that the signature at the start of the header names.\<close>

definition format_of_magic :: "string \<Rightarrow> string option" where
  "format_of_magic header =
     (if startswith [CHR 0x1F, CHR 0x8B] header then Some ''gzip''
      else if startswith ''BZh'' header then Some ''bz2''
      else if startswith [CHR ''P'', CHR ''K'', CHR 0x03, CHR 0x04] header then Some ''zip''
      else None)"

text \<open>The bytes of \<open>text_chars\<close>, and \<open>is_binary\<close>: some byte of the header is not one.\<close>

definition text_char :: "char \<Rightarrow> bool" where
  "text_char b = (ord b \<in> set [7, 8, 9, 10, 12, 13, 27] \<or> (32 \<le> ord b \<and> ord b \<noteq> 127))"

definition is_binary :: "string \<Rightarrow> bool" where
  "is_binary header = (filter (\<lambda>b. \<not> text_char b) header \<noteq> [])"

text \<open>The tests of \<open>_detect_file_format\<close> on the stripped first line of a text file.\<close>

definition first_line_format :: "lib \<Rightarrow> string \<Rightarrow> string" where
  "first_line_format L first_line =
     (if (startswith ''{'' first_line \<or> startswith ''['' first_line)
         \<and> json_loads L first_line \<noteq> None then ''json''
      else if startswith ''<?xml'' first_line \<or> startswith ''<'' first_line then ''xml''
      else if CHR '','' \<in> set first_line \<and> length (split_from '','' [] first_line) > 1
        then ''csv''
      else ''plain'')"

text \<open>\<open>_detect_file_format\<close>: the extension, the signature, the test for binary content,
  the first line; an exception on the way gives \<open>plain\<close>.\<close>

definition detect_file_format :: "lib \<Rightarrow> fsys \<Rightarrow> string \<Rightarrow> string" where
  "detect_file_format L F file_path =
     (case format_of_ext (lower (splitext_ext file_path)) of
        Some fmt \<Rightarrow> fmt
      | None \<Rightarrow>
          (case open_header F file_path of
             None \<Rightarrow> ''plain''
           | Some header \<Rightarrow>
               (case format_of_magic header of
                  Some fmt \<Rightarrow> fmt
                | None \<Rightarrow>
                    if is_binary header then ''binary''
                    else
                      (case open_first_line F file_path of
                         None \<Rightarrow> ''plain''
                       | Some l \<Rightarrow> first_line_format L (strip l)))))"

text \<open>\<open>_read_file_by_format\<close>: the reader of the format; when it raises, the plain reader;
  when that raises too, no lines.\<close>

definition reader_of :: "fsys \<Rightarrow> string \<Rightarrow> string \<Rightarrow> string list option" where
  "reader_of F file_format =
     (if file_format = ''gzip'' then read_gzip F
      else if file_format = ''bz2'' then read_bz2 F
      else if file_format = ''zip'' then read_zip F
      else if file_format = ''json'' then read_json F
      else if file_format = ''xml'' then read_xml F
      else if file_format = ''csv'' then read_csv F
      else if file_format = ''binary'' then read_binary F
      else read_plain F)"

definition read_file_by_format :: "fsys \<Rightarrow> string \<Rightarrow> string \<Rightarrow> string list" where
  "read_file_by_format F file_path file_format =
     (case reader_of F file_format file_path of
        Some lines \<Rightarrow> lines
      | None \<Rightarrow> (case read_plain F file_path of Some lines \<Rightarrow> lines | None \<Rightarrow> []))"

section \<open>parse\_file\<close>

text \<open>
  The body of the \<open>try\<close> of \<open>parse_file\<close>, in its stages: the parser object after the
  detection by \<open>detect_log_type\<close>, the lines, the object after the detection from the
  content, and the result of the parser that the type then selects.
\<close>

definition after_type_detection :: "fsys \<Rightarrow> parser \<Rightarrow> string \<Rightarrow> parser" where
  "after_type_detection F p file_path =
     (if log_type p = DEFAULT_LOG_TYPE then
        (let detected_type = detect_log_type F file_path in
         if detected_type \<noteq> log_type p
         then update_settings (p \<lparr> log_type := detected_type \<rparr>)
         else p)
      else p)"

definition file_lines :: "lib \<Rightarrow> fsys \<Rightarrow> string \<Rightarrow> string list" where
  "file_lines L F file_path =
     read_file_by_format F file_path (detect_file_format L F file_path)"

definition after_content_detection :: "lib \<Rightarrow> parser \<Rightarrow> string list \<Rightarrow> parser" where
  "after_content_detection L p lines =
     (if log_type p = DEFAULT_LOG_TYPE
      then detect_log_format_from_content L p (take 10 lines)
      else p)"

definition file_parser :: "lib \<Rightarrow> fsys \<Rightarrow> parser \<Rightarrow> string \<Rightarrow> parser" where
  "file_parser L F p file_path =
     after_content_detection L (after_type_detection F p file_path) (file_lines L F file_path)"

definition parse_file_try :: "lib \<Rightarrow> fsys \<Rightarrow> parser \<Rightarrow> string \<Rightarrow> error + table" where
  "parse_file_try L F p file_path =
     dispatch_file L (file_parser L F p file_path) (file_lines L F file_path)"

text \<open>\<open>parse_file\<close>: what the call gives to the caller, a frame or an exception, and the
  parser object after the call. An exception in the body is caught and the frame without
  rows over \<open>self.columns\<close> is returned.\<close>

definition parse_file :: "lib \<Rightarrow> fsys \<Rightarrow> parser \<Rightarrow> string \<Rightarrow> (error + table) \<times> parser" where
  "parse_file L F p file_path =
     (let p' = file_parser L F p file_path in
      (case parse_file_try L F p file_path of
         Inr df \<Rightarrow> Inr df
       | Inl e \<Rightarrow> Inr (DataFrame_columns (pcolumns p')),
       p'))"

section \<open>Uploaded files\<close>

text \<open>An uploaded file is a named buffer of bytes with a read position.\<close>

record uploaded_file =
  name :: string
  content :: string
  position :: nat

definition read_n :: "nat \<Rightarrow> uploaded_file \<Rightarrow> string \<times> uploaded_file" where
  "read_n n f =
     (take n (drop (position f) (content f)),
      f \<lparr> position := max (position f) (min (length (content f)) (position f + n)) \<rparr>)"

definition read_all :: "uploaded_file \<Rightarrow> string \<times> uploaded_file" where
  "read_all f =
     (drop (position f) (content f),
      f \<lparr> position := max (position f) (length (content f)) \<rparr>)"

definition seek0 :: "uploaded_file \<Rightarrow> uploaded_file" where
  "seek0 f = f \<lparr> position := 0 \<rparr>"

text \<open>
  The library on bytes: \<open>decode_utf8\<close> is \<open>bytes.decode('utf-8', errors='ignore')\<close>; the
  others give the lines that the branch of their format in
  \<open>_read_uploaded_file_by_format\<close> computes from the bytes read, \<open>None\<close> when it raises.
\<close>

record bytelib =
  decode_utf8 :: "string \<Rightarrow> string"
  gzip_lines :: "string \<Rightarrow> string list option"
  bz2_lines :: "string \<Rightarrow> string list option"
  zip_lines :: "string \<Rightarrow> string list option"
  json_lines :: "string \<Rightarrow> string list option"
  xml_lines :: "string \<Rightarrow> string list option"
  csv_lines :: "string \<Rightarrow> string list option"

text \<open>\<open>str.splitlines()\<close>: the line breaks below 256 are the newline, the carriage return
  (with a newline after it as one break), the vertical tab, the form feed, the three
  separators 28 to 30 and the next-line character 133.\<close>

definition linebreak :: "char \<Rightarrow> bool" where
  "linebreak c = ((10 \<le> ord c \<and> ord c \<le> 13) \<or> (28 \<le> ord c \<and> ord c \<le> 30) \<or> ord c = 133)"

fun splitlines_from :: "string \<Rightarrow> string \<Rightarrow> string list" where
  "splitlines_from acc [] = (if acc = [] then [] else [rev acc])"
| "splitlines_from acc [c] = (if linebreak c then [rev acc] else [rev (c # acc)])"
| "splitlines_from acc (c # d # cs) =
     (if c = CHR 0x0D \<and> d = CHR 0x0A then rev acc # splitlines_from [] cs
      else if linebreak c then rev acc # splitlines_from [] (d # cs)
      else splitlines_from (c # acc) (d # cs))"

definition splitlines :: "string \<Rightarrow> string list" where
  "splitlines s = splitlines_from [] s"

text \<open>\<open>_detect_uploaded_file_format\<close>: the extension of the lowered name, then the
  header, read at the current position, after which the position is set back to 0.\<close>

definition detect_uploaded_file_format :: "uploaded_file \<Rightarrow> string \<times> uploaded_file" where
  "detect_uploaded_file_format f =
     (case format_of_ext (lower (splitext_ext (lower (name f)))) of
        Some fmt \<Rightarrow> (fmt, f)
      | None \<Rightarrow>
          (let (header, f1) = read_n 8 f; f2 = seek0 f1 in
           (case format_of_magic header of
              Some fmt \<Rightarrow> (fmt, f2)
            | None \<Rightarrow> if is_binary header then (''binary'', f2) else (''plain'', f2))))"

text \<open>\<open>_read_uploaded_file_by_format\<close>; the fallback sets the position to 0 and reads the
  bytes as plain text.\<close>

definition read_uploaded_file_by_format ::
    "bytelib \<Rightarrow> uploaded_file \<Rightarrow> string \<Rightarrow> string list \<times> uploaded_file" where
  "read_uploaded_file_by_format B f file_format =
     (let (bytes, f1) = read_all f;
          attempt =
            (if file_format = ''gzip'' then gzip_lines B bytes
             else if file_format = ''bz2'' then bz2_lines B bytes
             else if file_format = ''zip'' then zip_lines B bytes
             else if file_format = ''json'' then json_lines B bytes
             else if file_format = ''xml'' then xml_lines B bytes
             else if file_format = ''csv'' then csv_lines B bytes
             else Some (splitlines (decode_utf8 B bytes)))
      in (case attempt of
            Some lines \<Rightarrow> (lines, f1)
          | None \<Rightarrow>
              (let (bytes', f2) = read_all (seek0 f1)
               in (splitlines (decode_utf8 B bytes'), f2))))"

text \<open>\<open>parse_uploaded_file\<close>: the detection from the content runs whatever the type of the
  parser object is.\<close>

definition uploaded_lines :: "bytelib \<Rightarrow> uploaded_file \<Rightarrow> string list \<times> uploaded_file" where
  "uploaded_lines B f =
     (let (file_format, f1) = detect_uploaded_file_format f
      in read_uploaded_file_by_format B f1 file_format)"

definition parse_uploaded_file ::
    "lib \<Rightarrow> bytelib \<Rightarrow> parser \<Rightarrow> uploaded_file \<Rightarrow> (error + table) \<times> parser \<times> uploaded_file" where
  "parse_uploaded_file L B p f =
     (let (lines, f') = uploaded_lines B f;
          p' = detect_log_format_from_content L p (take 10 lines)
      in (case dispatch_uploaded L p' lines of
            Inr df \<Rightarrow> Inr df
          | Inl e \<Rightarrow> Inr (DataFrame_columns (pcolumns p')),
          p', f'))"

section \<open>A library instance for the examples\<close>

text \<open>
  The local zone is UTC. The other functions are simple stand-ins that agree with the
  real ones on the inputs of the examples: \<open>strptime\<close> accepts nothing, \<open>json.loads\<close>
  knows the empty object only, no line is an XML element, and the CSV reader splits a
  line at its commas (as \<open>csv.reader\<close> does on lines without quotes or line ends).
\<close>

definition simple_csv_reader :: "string list \<Rightarrow> string list list \<times> bool" where
  "simple_csv_reader lines =
     (map (\<lambda>l. if l = [] then [] else split_from '','' [] l) lines, False)"

definition utc_lib :: lib where
  "utc_lib = \<lparr> utcoffset = (\<lambda>t. 0), strptime = (\<lambda>s fmt. None),
       to_numeric = (\<lambda>s. case py_int s of None \<Rightarrow> Null | Some n \<Rightarrow> Num (of_int n)),
       json_loads = (\<lambda>s. if strip s = ''{}'' then Some (JObj []) else None),
       json_frame = (\<lambda>vs. Inr (DataFrame [])),
       xml_children = (\<lambda>s. None),
       csv_reader = simple_csv_reader \<rparr>"

text \<open>A file system that holds one plain text file, given by its path and its lines
  (without line ends, and without quotes); every other path cannot be opened. The file is
  no archive and no JSON or XML document, so those readers raise; the CSV branch joins
  the fields of every row again and gives the lines back.\<close>

definition at_path :: "string \<Rightarrow> 'a \<Rightarrow> string \<Rightarrow> 'a option" where
  "at_path path x q = (if q = path then Some x else None)"

definition one_file :: "string \<Rightarrow> string list \<Rightarrow> fsys" where
  "one_file path lines =
     (let text = concat (map (\<lambda>l. l @ [CHR 0x0A]) lines);
          ended = map (\<lambda>l. l @ [CHR 0x0A]) lines
      in \<lparr> open_sample = at_path path (take 5 (ended @ replicate 5 [])),
           open_header = at_path path (take 8 text),
           open_first_line = at_path path (case ended of [] \<Rightarrow> [] | l # _ \<Rightarrow> l),
           read_plain = at_path path ended,
           read_gzip = (\<lambda>q. None), read_bz2 = (\<lambda>q. None), read_zip = (\<lambda>q. None),
           read_json = (\<lambda>q. None), read_xml = (\<lambda>q. None), read_csv = at_path path lines,
           read_binary = at_path path lines \<rparr>)"

text \<open>A library on bytes for ASCII text without quotes that is no archive and no JSON or
  XML document; the CSV branch gives the lines back.\<close>

definition ascii_bytes :: bytelib where
  "ascii_bytes =
     \<lparr> decode_utf8 = (\<lambda>bs. bs), gzip_lines = (\<lambda>bs. None), bz2_lines = (\<lambda>bs. None),
       zip_lines = (\<lambda>bs. None), json_lines = (\<lambda>bs. None), xml_lines = (\<lambda>bs. None),
       csv_lines = (\<lambda>bs. Some (splitlines bs)) \<rparr>"

text \<open>The lines of the examples.\<close>

definition good_line :: string where
  "good_line = ''1704067200 10.0.0.1 alice http://a.com/x 2048 200 text/html News Mozilla/5''"

definition bad_line :: string where
  "bad_line =
     ''2024-01-01 00:00:00 10.0.0.1 alice http://a.com/x 2048 200 text/html News Mozilla/5''"

definition firewall_example :: string where
  "firewall_example = ''1704067200 DENY TCP 10.0.0.1 443 10.0.0.2 80 eth0 42 virus download''"

definition virus_example :: string where
  "virus_example = ''1704067200 10.0.0.1 alice Trojan.X /tmp/a removed clamav high''"

definition nl :: string where
  "nl = [CHR 0x0A]"

text \<open>The upload \<open>x.csv\<close> of the examples, a header line and one data row, with the read
  position at a given place.\<close>

definition csv_upload :: "nat \<Rightarrow> uploaded_file" where
  "csv_upload pos = \<lparr> name = ''x.csv'', content = ''a,b'' @ nl @ ''1,2'' @ nl, position = pos \<rparr>"

section \<open>Properties of splitting\<close>

lemma split_all_Nil: "dropWhile isspace s = [] \<Longrightarrow> split_all s = []"
  by (subst split_all.simps) (simp add: Let_def del: dropWhile_eq_Nil_conv)

lemma split_all_Cons:
  "dropWhile isspace s \<noteq> [] \<Longrightarrow>
   split_all s = takeWhile (\<lambda>c. \<not> isspace c) (dropWhile isspace s)
        # split_all (dropWhile (\<lambda>c. \<not> isspace c) (dropWhile isspace s))"
  by (subst split_all.simps) (simp only: Let_def if_False)

lemma split_ws_Nil: "dropWhile isspace s = [] \<Longrightarrow> split_ws k s = []"
  by (subst split_ws.simps) (simp add: Let_def del: dropWhile_eq_Nil_conv)

lemma split_ws_0: "dropWhile isspace s \<noteq> [] \<Longrightarrow> split_ws 0 s = [dropWhile isspace s]"
  by (subst split_ws.simps) (simp only: Let_def if_False nat.case)

lemma split_ws_Suc:
  "dropWhile isspace s \<noteq> [] \<Longrightarrow>
   split_ws (Suc k) s = takeWhile (\<lambda>c. \<not> isspace c) (dropWhile isspace s)
        # split_ws k (dropWhile (\<lambda>c. \<not> isspace c) (dropWhile isspace s))"
  by (subst split_ws.simps) (simp only: Let_def if_False nat.case)



lemma split_ws_split_all:
  "split_ws k s = (if length (split_all s) \<le> k then split_all s
                   else take k (split_all s) @ [rest_after k s])"
proof (induction k arbitrary: s)
  case 0
  show ?case
  proof (cases "dropWhile isspace s = []")
    case True
    show ?thesis using split_ws_Nil [OF True] split_all_Nil [OF True] by simp
  next
    case False
    show ?thesis using split_ws_0 [OF False] split_all_Cons [OF False] by simp
  qed
next
  case (Suc k)
  show ?case
  proof (cases "dropWhile isspace s = []")
    case True
    show ?thesis using split_ws_Nil [OF True] split_all_Nil [OF True] by simp
  next
    case False
    show ?thesis using split_ws_Suc [OF False] split_all_Cons [OF False] by (simp add: Suc)
  qed
qed

lemma length_split_ws_le: "length (split_ws k s) \<le> Suc k"
  by (simp add: split_ws_split_all)

lemma fixed_line_generic:
  assumes "length names = k" and "0 < k"
  shows "(let parts = split_ws k s in
          if Suc k \<le> length parts then lift_row (unpack_row L t names parts) else Inr None)
       = (let toks = split_all s in
          if Suc k \<le> length toks
          then Inr (Some ((''timestamp'', Str (format_timestamp L (hd toks) t))
                 # (''raw_timestamp'', Str (hd toks))
                 # zip names (map Str (tl (take k toks) @ [rest_after k s]))))
          else Inr None)"
proof (cases "Suc k \<le> length (split_all s)")
  case True
  then have sw: "split_ws k s = take k (split_all s) @ [rest_after k s]"
    by (simp add: split_ws_split_all)
  have len: "length (split_ws k s) = Suc k" using True by (simp add: sw)
  have "take k (split_all s) \<noteq> []" using True assms(2) by auto
  then have "hd (split_ws k s) = hd (split_all s)"
    and "tl (split_ws k s) = tl (take k (split_all s)) @ [rest_after k s]"
    using True assms(2) by (simp_all add: sw hd_append)
  then show ?thesis using True len assms
    by (simp add: Let_def unpack_row_def lift_row_def)
next
  case False
  then show ?thesis by (simp add: Let_def split_ws_split_all)
qed

section \<open>The records of the fixed-field parsers\<close>

lemma columns_of_simps:
  "columns_of ''browsing'' = [''timestamp'', ''ip_address'', ''username'', ''url'',
      ''bandwidth'', ''status_code'', ''content_type'', ''category'', ''device_info'']"
  "columns_of ''virus'' = [''timestamp'', ''ip_address'', ''username'', ''virus_name'',
      ''file_path'', ''action_taken'', ''scan_engine'', ''severity'']"
  "columns_of ''mail'' = [''timestamp'', ''sender'', ''recipient'', ''subject'',
      ''size'', ''status'', ''attachment_count'', ''spam_score'']"
  "columns_of ''firewall'' = [''timestamp'', ''action'', ''protocol'', ''src_ip'',
      ''src_port'', ''dst_ip'', ''dst_port'', ''interface'', ''rule_id'', ''description'']"
  "columns_of ''auth'' = [''timestamp'', ''username'', ''source_ip'', ''service'',
      ''status'', ''auth_method'', ''details'']"
  "columns_of ''system'' = [''timestamp'', ''hostname'', ''service'', ''pid'',
      ''level'', ''message'']"
  "columns_of ''ids'' = [''timestamp'', ''alert_id'', ''severity'', ''category'',
      ''src_ip'', ''dst_ip'', ''protocol'', ''signature'', ''description'']"
  "columns_of ''vpn'' = [''timestamp'', ''username'', ''client_ip'', ''session_id'',
      ''event_type'', ''duration'', ''bytes_in'', ''bytes_out'']"
  by (simp_all add: columns_of_def LOG_TYPES_def)

lemma fixed_line_row:
  assumes "f L line = (let parts = split_ws k (strip line) in
             if Suc k \<le> length parts then lift_row (unpack_row L t names parts) else Inr None)"
    and "columns_of t = c # names" and "names \<noteq> []" and "k = length names"
  shows "f L line = (if length (columns_of t) \<le> length (split_all (strip line))
                     then Inr (Some (fixed_field_row L t line)) else Inr None)"
  using assms fixed_line_generic [of names k "strip line" L t]
  by (simp add: Let_def fixed_field_row_def)

lemma browsing_line_row:
  "browsing_line L line =
     (if length (columns_of ''browsing'') \<le> length (split_all (strip line))
      then Inr (Some (fixed_field_row L ''browsing'' line)) else Inr None)"
  by (rule fixed_line_row [where k = 8]) (simp add: browsing_line_def columns_of_simps)+









lemma collect_rows_filter:
  assumes "\<And>l. f l = (if P l then Inr (Some (g l)) else Inr None)"
  shows "collect_rows f ls = Inr (map g (filter P ls))"
  by (induction ls) (simp_all add: assms)




section \<open>The CSV parser\<close>

lemma csv_fold_positions:
  "fold (\<lambda>(i, v) d. if i < length header then dict_set (header ! i) (Str v) d else d)
       (List.enumerate k r) d0
   = fold (\<lambda>(c, v) d. dict_set c (Str v) d) (zip (drop k header) r) d0"
proof (induction r arbitrary: k d0)
  case Nil
  show ?case by simp
next
  case (Cons v r)
  show ?case
  proof (cases "k < length header")
    case True
    then have dr: "drop k header = header ! k # drop (Suc k) header"
      by (simp add: Cons_nth_drop_Suc)
    show ?thesis
      unfolding dr using True by (simp add: Cons.IH)
  next
    case False
    then have "drop k header = []" "drop (Suc k) header = []" by simp_all
    then show ?thesis
      using False Cons.IH [of "Suc k" d0] by simp
  qed
qed

lemma csv_row_dict_zip:
  "csv_row_dict header r = fold (\<lambda>(c, v) d. dict_set c (Str v) d) (zip header r) []"
  using csv_fold_positions [of header 0 r "[]"] by (simp add: csv_row_dict_def)

lemma zip_take_right: "zip xs (take (length xs) ys) = zip xs ys"
proof (induction xs arbitrary: ys)
  case Nil
  show ?case by simp
next
  case (Cons x xs)
  show ?case by (cases ys) (simp_all add: Cons.IH)
qed

lemma csv_row_dict_take: "csv_row_dict header r = csv_row_dict header (take (length header) r)"
  by (simp add: csv_row_dict_zip zip_take_right)

lemma dict_set_fresh: "k \<notin> fst ` set d \<Longrightarrow> dict_set k v d = d @ [(k, v)]"
  by (induction d) auto

lemma fold_dict_set_distinct:
  "distinct (map fst d @ cs) \<Longrightarrow>
   fold (\<lambda>(c, v) d. dict_set c (Str v) d) (zip cs vs) d = d @ zip cs (map Str vs)"
proof (induction cs arbitrary: vs d)
  case Nil
  then show ?case by simp
next
  case (Cons c cs)
  show ?case
  proof (cases vs)
    case Nil
    then show ?thesis by simp
  next
    case (Cons v vs')
    have fresh: "c \<notin> fst ` set d" using Cons.prems(1) by auto
    have "distinct (map fst (d @ [(c, Str v)]) @ cs)" using Cons.prems(1) by auto
    then show ?thesis using Cons.IH [of "d @ [(c, Str v)]" vs'] fresh
      by (simp add: Cons dict_set_fresh)
  qed
qed

lemma csv_row_dict_distinct:
  "distinct header \<Longrightarrow> csv_row_dict header r = zip header (map Str r)"
  using fold_dict_set_distinct [of "[]" header r] by (simp add: csv_row_dict_zip)

lemma csv_row_dict_Nil: "csv_row_dict header [] = []"
  by (simp add: csv_row_dict_def)

text \<open>
  Claim C10. The first row that the reader yields is the header. A data row gives the
  dict of its values at the header's positions: the values beyond the header's length
  are dropped (the dict is that of the row cut to the header's length, and for a header
  without repeated names it pairs the names with the values in order). A row without
  values gives the empty dict, and empty dicts are not recorded. Without any row, the
  result is the empty frame.
\<close>

theorem csv_header_and_rows:
  assumes "csv_reader L lines = (rs, False)"
  shows "(rs = [] \<longrightarrow> parse_csv_format L lines = Inr (DataFrame []))
       \<and> (\<forall>header rest. rs = header # rest \<and> header \<noteq> [] \<longrightarrow>
             parse_csv_format L lines
               = Inr (DataFrame (filter (\<lambda>d. d \<noteq> []) (map (csv_row_dict header) rest)))
           \<and> (\<forall>r \<in> set rest.
                 csv_row_dict header r = csv_row_dict header (take (length header) r)
               \<and> (distinct header \<longrightarrow> csv_row_dict header r = zip header (map Str r))))
       \<and> csv_row_dict h [] = []"
  using assms csv_row_dict_take csv_row_dict_distinct
  by (auto simp: parse_csv_format_def csv_row_dict_Nil)

theorem csv_header_and_rows_witness:
  "csv_reader utc_lib [''a,b'', ''1,2,3'', '''', ''4''] = ([ [''a'', ''b''], [''1'', ''2'', ''3''], [], [''4''] ], False)
   \<and> parse_csv_format utc_lib [''a,b'', ''1,2,3'', '''', ''4'']
      = Inr \<lparr> columns = [''a'', ''b''],
              rows = [ [(''a'', Str ''1''), (''b'', Str ''2'')], [(''a'', Str ''4''), (''b'', Null)] ] \<rparr>"
proof -
  have rd: "csv_reader utc_lib [''a,b'', ''1,2,3'', '''', ''4'']
      = ([ [''a'', ''b''], [''1'', ''2'', ''3''], [], [''4''] ], False)"
    by code_simp
  have fr: "DataFrame (filter (\<lambda>d. d \<noteq> [])
       (map (csv_row_dict [''a'', ''b'']) [ [''1'', ''2'', ''3''], [], [''4''] ]))
     = \<lparr> columns = [''a'', ''b''],
              rows = [ [(''a'', Str ''1''), (''b'', Str ''2'')], [(''a'', Str ''4''), (''b'', Null)] ] \<rparr>"
    by code_simp
  have "parse_csv_format utc_lib [''a,b'', ''1,2,3'', [], ''4'']
      = Inr (DataFrame (filter (\<lambda>d. d \<noteq> [])
          (map (csv_row_dict [''a'', ''b'']) [ [''1'', ''2'', ''3''], [], [''4''] ])))"
    using csv_header_and_rows [OF rd] by blast
  then show ?thesis
    unfolding fr using rd by (intro conjI)
qed

section \<open>Timestamps\<close>

lemma format_timestamp_digits:
  "isdigit ts \<Longrightarrow> format_timestamp (L \<lparr> strptime := sp \<rparr>) ts t = format_timestamp L ts t"
  by (simp add: format_timestamp_def fromtimestamp_def split: option.splits)

lemma astype_int_bad:
  "Str s \<in> set vs \<Longrightarrow> py_int s = None \<Longrightarrow> \<exists>e. astype_int vs = Inl e"
proof (induction vs)
  case Nil
  then show ?case by simp
next
  case (Cons v vs)
  show ?case
  proof (cases "v = Str s")
    case True
    then show ?thesis using Cons.prems(2) by simp
  next
    case False
    then have "\<exists>e. astype_int vs = Inl e" using Cons by auto
    then show ?thesis by (auto split: val.splits option.splits)
  qed
qed

lemma set_first_keys: "set (first_keys data) = (\<Union>r \<in> set data. fst ` set r)"
  by (auto simp: first_keys_def)

lemma cell_fill_row: "c \<in> set cols \<Longrightarrow> cell c (fill_row cols r) = cell c r"
  by (induction cols) (auto simp: fill_row_def cell_def)

lemma map_of_dict_set: "map_of (dict_set k v r) = (map_of r)(k \<mapsto> v)"
  by (induction r) (auto simp: fun_eq_iff)

lemma cell_dict_set_other: "c \<noteq> k \<Longrightarrow> cell c (dict_set k v r) = cell c r"
  by (simp add: cell_def map_of_dict_set)

lemma cells_after_update:
  "c \<noteq> k \<Longrightarrow> length vs = length rs \<Longrightarrow>
   map (cell c) (map (\<lambda>(r, v). dict_set k v r) (zip rs vs)) = map (cell c) rs"
  by (induction rs vs rule: list_induct2') (simp_all add: cell_dict_set_other)

lemma get_column_cells:
  "get_column df c = Inr vs \<Longrightarrow> vs = map (cell c) (rows df)"
  by (auto simp: get_column_def cell_def split: if_splits)

lemma rows_set_column:
  "c \<noteq> k \<Longrightarrow> length vs = length (rows df) \<Longrightarrow>
   map (cell c) (rows (set_column k vs df)) = map (cell c) (rows df)"
  using cells_after_update [of c k vs "rows df"] by (simp add: set_column_def)

lemma length_rows_set_column:
  "length vs = length (rows df) \<Longrightarrow> length (rows (set_column k vs df)) = length (rows df)"
  by (simp add: set_column_def)

lemma browsing_convert_bad:
  assumes "Str s \<in> set (map (cell ''raw_timestamp'') (rows df))" and "py_int s = None"
    and "columns df \<noteq> []"
  shows "\<exists>e. browsing_convert L df = Inl e"
proof -
  have False: "\<not> df_empty df" using assms(1,3) by (auto simp: df_empty_def)
  show ?thesis
  proof (cases "get_column df ''bandwidth''")
    case (Inl e)
    then show ?thesis using False by (simp add: browsing_convert_def)
  next
    case bw: (Inr bw)
    let ?f = "\<lambda>v. case v of Str s \<Rightarrow> to_numeric L s | _ \<Rightarrow> v"
    let ?df1 = "set_column ''bandwidth'' (map ?f bw) df"
    have lbw: "length (map ?f bw) = length (rows df)"
      using get_column_cells [OF bw] by simp
    show ?thesis
    proof (cases "get_column ?df1 ''status_code''")
      case (Inl e)
      then show ?thesis using False bw by (simp add: browsing_convert_def Let_def)
    next
      case sc: (Inr sc)
      let ?df2 = "set_column ''status_code'' (map ?f sc) ?df1"
      have lsc: "length (map ?f sc) = length (rows ?df1)"
        using get_column_cells [OF sc] by simp
      show ?thesis
      proof (cases "get_column ?df2 ''raw_timestamp''")
        case (Inl e)
        then show ?thesis using False bw sc by (simp add: browsing_convert_def Let_def)
      next
        case raw: (Inr raw)
        have "raw = map (cell ''raw_timestamp'') (rows ?df2)"
          by (rule get_column_cells [OF raw])
        also have "\<dots> = map (cell ''raw_timestamp'') (rows ?df1)"
          by (rule rows_set_column [OF _ lsc]) simp
        also have "\<dots> = map (cell ''raw_timestamp'') (rows df)"
          by (rule rows_set_column [OF _ lbw]) simp
        finally have "Str s \<in> set raw" using assms(1) by simp
        then obtain e where "astype_int raw = Inl e"
          using astype_int_bad [OF _ assms(2)] by blast
        then show ?thesis using False bw sc raw by (simp add: browsing_convert_def Let_def)
      qed
    qed
  qed
qed

lemma cell_raw_timestamp:
  "cell ''raw_timestamp'' (fixed_field_row L t line) = Str (hd (split_all (strip line)))"
  by (simp add: fixed_field_row_def cell_def Let_def)

lemma raw_timestamp_key: "''raw_timestamp'' \<in> fst ` set (fixed_field_row L t line)"
  by (simp add: fixed_field_row_def Let_def)

lemma browsing_bad_timestamp_raises:
  assumes "l \<in> set lines"
    and "length (columns_of ''browsing'') \<le> length (split_all (strip l))"
    and "py_int (hd (split_all (strip l))) = None"
  shows "\<exists>e. parse_browsing_logs L lines = Inl e"
proof -
  define P where "P = (\<lambda>l. length (columns_of ''browsing'') \<le> length (split_all (strip l)))"
  define data where "data = map (fixed_field_row L ''browsing'') (filter P lines)"
  have cr: "collect_rows (browsing_line L) lines = Inr data"
    unfolding data_def P_def by (rule collect_rows_filter) (simp add: browsing_line_row)
  have mem: "fixed_field_row L ''browsing'' l \<in> set data"
    using assms(1,2) by (simp add: data_def P_def)
  have key: "''raw_timestamp'' \<in> set (first_keys data)"
    unfolding set_first_keys
    by (rule UN_I [where B = "\<lambda>r. fst ` set r", OF mem raw_timestamp_key])
  then have ne: "columns (DataFrame data) \<noteq> []"
    by (auto simp: DataFrame_def)
  have "map (cell ''raw_timestamp'') (rows (DataFrame data)) = map (cell ''raw_timestamp'') data"
    by (simp add: DataFrame_def cell_fill_row [OF key] comp_def)
  moreover have "Str (hd (split_all (strip l))) \<in> cell ''raw_timestamp'' ` set data"
    by (rule image_eqI [where f = "cell ''raw_timestamp''" and x = "fixed_field_row L ''browsing'' l",
          OF cell_raw_timestamp [symmetric] mem])
  ultimately have "Str (hd (split_all (strip l)))
      \<in> set (map (cell ''raw_timestamp'') (rows (DataFrame data)))"
    by simp
  then show ?thesis
    using browsing_convert_bad [OF _ assms(3) ne] by (simp add: parse_browsing_logs_def cr)
qed

lemma example_file_lines:
  "file_lines utc_lib (one_file ''b.log'' [good_line, bad_line]) ''b.log''
     = [good_line @ nl, bad_line @ nl]"
  by code_simp

lemma example_browsing_raises:
  "parse_browsing_logs utc_lib [good_line @ nl, bad_line @ nl] = Inl ValueError"
  by code_simp

lemma example_type_detection:
  "after_type_detection (one_file ''b.log'' [good_line, bad_line]) (LogParser None) ''b.log''
     = LogParser None"
  by code_simp

lemma example_content_detection:
  "after_content_detection utc_lib (LogParser None) [good_line @ nl, bad_line @ nl]
     = LogParser None"
  by code_simp

lemma default_parser:
  "log_type (LogParser None) = ''browsing''"
  "pcolumns (LogParser None) = [''timestamp'', ''ip_address'', ''username'', ''url'',
      ''bandwidth'', ''status_code'', ''content_type'', ''category'', ''device_info'']"
  by code_simp+

lemma example_parse_file_try:
  "parse_file_try utc_lib (one_file ''b.log'' [good_line, bad_line]) (LogParser None) ''b.log''
     = Inl ValueError"
  by (simp add: parse_file_try_def file_parser_def example_file_lines example_type_detection
        example_content_detection dispatch_file_def default_parser example_browsing_raises)

text \<open>
  Claim C1, on the code. A browsing file of two lines, the first with an epoch timestamp
  and the second with a date that is neither digits nor in the format of the registry:
  the parser raises when it reads the raw timestamps as integers, and \<open>parse_file\<close>
  returns the frame without rows, so the good record is lost with the bad one.
\<close>

theorem bad_timestamp_drops_batch:
  "good_line = ''1704067200 10.0.0.1 alice http://a.com/x 2048 200 text/html News Mozilla/5''
   \<and> bad_line
     = ''2024-01-01 00:00:00 10.0.0.1 alice http://a.com/x 2048 200 text/html News Mozilla/5''
   \<and> parse_browsing_logs utc_lib [good_line @ nl, bad_line @ nl] = Inl ValueError
   \<and> fst (parse_file utc_lib (one_file ''b.log'' [good_line, bad_line]) (LogParser None)
          ''b.log'')
     = Inr \<lparr> columns = [''timestamp'', ''ip_address'', ''username'', ''url'', ''bandwidth'',
                ''status_code'', ''content_type'', ''category'', ''device_info''],
              rows = [] \<rparr>"
proof (intro conjI)
  show "good_line
      = ''1704067200 10.0.0.1 alice http://a.com/x 2048 200 text/html News Mozilla/5''"
    by (rule good_line_def)
  show "bad_line
      = ''2024-01-01 00:00:00 10.0.0.1 alice http://a.com/x 2048 200 text/html News Mozilla/5''"
    by (rule bad_line_def)
  show "parse_browsing_logs utc_lib [good_line @ nl, bad_line @ nl] = Inl ValueError"
    by (rule example_browsing_raises)
  show "fst (parse_file utc_lib (one_file ''b.log'' [good_line, bad_line]) (LogParser None)
          ''b.log'')
     = Inr \<lparr> columns = [''timestamp'', ''ip_address'', ''username'', ''url'', ''bandwidth'',
                ''status_code'', ''content_type'', ''category'', ''device_info''],
              rows = [] \<rparr>"
    by (simp add: parse_file_def file_parser_def example_file_lines example_type_detection
          example_content_detection default_parser example_parse_file_try
          DataFrame_columns_def)
qed

text \<open>
  Claim C2, on the code. The ten digits \<open>1704067200\<close> are read as seconds since the epoch,
  the instant 2024-01-01T00:00:00Z. The fourteen digits \<open>20240101000000\<close> are digits too,
  so they take the same path, whatever \<open>strptime\<close> would make of them: the number is no
  valid timestamp, the string comes back unchanged, and the \<open>datetime\<close> of the browsing
  record is null.
\<close>

theorem digits_take_epoch_path:
  "format_timestamp (utc_lib \<lparr> strptime := sp \<rparr>) ''1704067200'' ''browsing''
     = ''2024-01-01 00:00:00''
   \<and> utc_epoch 2024 1 1 0 0 0 = 1704067200
   \<and> datetime_format_of ''browsing'' = ''%Y%m%d%H%M%S''
   \<and> format_timestamp (utc_lib \<lparr> strptime := sp \<rparr>) ''20240101000000'' ''browsing''
     = ''20240101000000''
   \<and> map_option (map (\<lambda>r. map_of r ''datetime'') \<circ> rows)
       (case parse_browsing_logs (utc_lib \<lparr> strptime := sp \<rparr>)
          [''20240101000000 10.0.0.1 alice http://a.com/x 2048 200 text/html News Mozilla/5'']
        of Inl e \<Rightarrow> None | Inr df \<Rightarrow> Some df)
     = Some [Some Null]"
  by code_simp

section \<open>The classifier\<close>

lemma log_type_update_settings [simp]: "log_type (update_settings p) = log_type p"
  by (simp add: update_settings_def)

lemma update_settings_idem [simp]: "update_settings (update_settings p) = update_settings p"
  by (simp add: update_settings_def)

lemma update_settings_set_type:
  "update_settings (update_settings p \<lparr> log_type := t \<rparr>) = update_settings (p \<lparr> log_type := t \<rparr>)"
  by (simp add: update_settings_def)

lemma json_object_first:
  "startswith ''{'' (strip l) \<Longrightarrow> json_loads L l \<noteq> None \<Longrightarrow>
   log_type (detect_log_format_from_content L p (l # ls)) = ''json''"
  by (simp add: detect_log_format_from_content_def)

lemma structured_before_keywords:
  assumes "startswith ''{'' (strip l) \<and> json_loads L l \<noteq> None
         \<or> re_match clf_detect (strip l) \<noteq> None
         \<or> startswith ''#Fields:'' (strip l)
         \<or> re_match syslog_detect (strip l) \<noteq> None"
  shows "log_type (detect_log_format_from_content L p (l # ls))
           \<in> {''json'', ''clf'', ''elf'', ''syslog''}"
  using assms by (auto simp: detect_log_format_from_content_def)

lemma detect_no_match:
  assumes "log_type (detect_log_format_from_content L p ls)
             \<notin> {''json'', ''clf'', ''elf'', ''syslog''}"
    and "first_line_type ls = None"
  shows "log_type (detect_log_format_from_content L p ls) = log_type p"
  using assms by (auto simp: detect_log_format_from_content_def split: if_splits)

lemma detect_idem:
  "detect_log_format_from_content L (detect_log_format_from_content L p ls) ls
   = detect_log_format_from_content L p ls"
  by (auto simp: detect_log_format_from_content_def update_settings_set_type
        split: option.splits)

text \<open>
  Claim C5, on the code. A sample whose first line is the JSON array \<open>[1, 2]\<close> and whose
  second line has the word virus: the test for JSON looks for an opening brace only, and
  does not ask \<open>json.loads\<close>; no other structured test holds, and the keywords decide.
\<close>

theorem json_array_first_line:
  "log_type (detect_log_format_from_content (utc_lib \<lparr> json_loads := jl \<rparr>) (LogParser None)
      [''[1, 2]'', ''virus found'']) = ''virus''"
  by code_simp

lemma uploaded_example_lines:
  "uploaded_lines ascii_bytes \<lparr> name = ''fw.log'', content = firewall_example, position = 0 \<rparr>
     = ([firewall_example],
        \<lparr> name = ''fw.log'', content = firewall_example, position = length firewall_example \<rparr>)"
  by code_simp

lemma uploaded_example_detection:
  "detect_log_format_from_content utc_lib (LogParser (Some ''firewall'')) [firewall_example]
     = LogParser (Some ''virus'')"
  by code_simp

lemma virus_parser: "log_type (LogParser (Some ''virus'')) = ''virus''"
  by code_simp

lemma uploaded_example_frame:
  "parse_virus_logs utc_lib [firewall_example]
     = Inr \<lparr> columns = [''timestamp'', ''raw_timestamp'', ''ip_address'', ''username'',
                ''virus_name'', ''file_path'', ''action_taken'', ''scan_engine'', ''severity''],
              rows = [ [(''timestamp'', Str ''2024-01-01 00:00:00''),
                       (''raw_timestamp'', Str ''1704067200''), (''ip_address'', Str ''DENY''),
                       (''username'', Str ''TCP''), (''virus_name'', Str ''10.0.0.1''),
                       (''file_path'', Str ''443''), (''action_taken'', Str ''10.0.0.2''),
                       (''scan_engine'', Str ''80''),
                       (''severity'', Str ''eth0 42 virus download'')] ] \<rparr>"
  by code_simp

lemma declared_browsing_example:
  "after_type_detection (one_file ''v.log'' [virus_example]) (LogParser (Some ''browsing''))
     ''v.log'' = LogParser (Some ''virus'')"
  by code_simp

text \<open>
  Claim C4, on the code. An upload parsed by a parser object that was made for the
  declared type \<open>firewall\<close>: the classifier runs all the same, finds the word virus in the
  line, and the line is parsed as a virus record. And a file parsed by an object made for
  the declared type \<open>browsing\<close>, which is the default: \<open>parse_file\<close> takes the type for
  undeclared and the object ends with the type \<open>virus\<close>.
\<close>

theorem declared_type_overridden:
  "firewall_example = ''1704067200 DENY TCP 10.0.0.1 443 10.0.0.2 80 eth0 42 virus download''
   \<and> fst (parse_uploaded_file utc_lib ascii_bytes (LogParser (Some ''firewall''))
          \<lparr> name = ''fw.log'', content = firewall_example, position = 0 \<rparr>)
     = Inr \<lparr> columns = [''timestamp'', ''raw_timestamp'', ''ip_address'', ''username'',
                ''virus_name'', ''file_path'', ''action_taken'', ''scan_engine'', ''severity''],
              rows = [ [(''timestamp'', Str ''2024-01-01 00:00:00''),
                       (''raw_timestamp'', Str ''1704067200''), (''ip_address'', Str ''DENY''),
                       (''username'', Str ''TCP''), (''virus_name'', Str ''10.0.0.1''),
                       (''file_path'', Str ''443''), (''action_taken'', Str ''10.0.0.2''),
                       (''scan_engine'', Str ''80''),
                       (''severity'', Str ''eth0 42 virus download'')] ] \<rparr>
   \<and> log_type (fst (snd (parse_uploaded_file utc_lib ascii_bytes (LogParser (Some ''firewall''))
          \<lparr> name = ''fw.log'', content = firewall_example, position = 0 \<rparr>))) = ''virus''
   \<and> virus_example = ''1704067200 10.0.0.1 alice Trojan.X /tmp/a removed clamav high''
   \<and> log_type (snd (parse_file utc_lib (one_file ''v.log'' [virus_example])
          (LogParser (Some ''browsing'')) ''v.log'')) = ''virus''"
proof (intro conjI)
  show "firewall_example
      = ''1704067200 DENY TCP 10.0.0.1 443 10.0.0.2 80 eth0 42 virus download''"
    by (rule firewall_example_def)
  show "virus_example = ''1704067200 10.0.0.1 alice Trojan.X /tmp/a removed clamav high''"
    by (rule virus_example_def)
  show "fst (parse_uploaded_file utc_lib ascii_bytes (LogParser (Some ''firewall''))
          \<lparr> name = ''fw.log'', content = firewall_example, position = 0 \<rparr>)
     = Inr \<lparr> columns = [''timestamp'', ''raw_timestamp'', ''ip_address'', ''username'',
                ''virus_name'', ''file_path'', ''action_taken'', ''scan_engine'', ''severity''],
              rows = [ [(''timestamp'', Str ''2024-01-01 00:00:00''),
                       (''raw_timestamp'', Str ''1704067200''), (''ip_address'', Str ''DENY''),
                       (''username'', Str ''TCP''), (''virus_name'', Str ''10.0.0.1''),
                       (''file_path'', Str ''443''), (''action_taken'', Str ''10.0.0.2''),
                       (''scan_engine'', Str ''80''),
                       (''severity'', Str ''eth0 42 virus download'')] ] \<rparr>"
    by (simp add: parse_uploaded_file_def uploaded_example_lines uploaded_example_detection
          dispatch_uploaded_def virus_parser uploaded_example_frame)
  show "log_type (fst (snd (parse_uploaded_file utc_lib ascii_bytes
          (LogParser (Some ''firewall''))
          \<lparr> name = ''fw.log'', content = firewall_example, position = 0 \<rparr>))) = ''virus''"
    by (simp add: parse_uploaded_file_def uploaded_example_lines uploaded_example_detection
          virus_parser Let_def)
  show "log_type (snd (parse_file utc_lib (one_file ''v.log'' [virus_example])
          (LogParser (Some ''browsing'')) ''v.log'')) = ''virus''"
    by (simp add: parse_file_def Let_def file_parser_def declared_browsing_example
          after_content_detection_def virus_parser DEFAULT_LOG_TYPE_def)
qed

section \<open>The container sniffer\<close>









section \<open>What the top-level calls return\<close>

lemma fst_parse_file:
  "fst (parse_file L F p path)
     = Inr (case parse_file_try L F p path of
              Inr df \<Rightarrow> df
            | Inl e \<Rightarrow> DataFrame_columns (pcolumns (file_parser L F p path)))"
  by (simp add: parse_file_def Let_def split: sum.splits)

lemma snd_parse_file: "snd (parse_file L F p path) = file_parser L F p path"
  by (simp add: parse_file_def Let_def)





section \<open>The parser object across calls\<close>

lemma file_parser_declared:
  "log_type p \<noteq> DEFAULT_LOG_TYPE \<Longrightarrow> file_parser L F p path = p"
  by (simp add: file_parser_def after_type_detection_def after_content_detection_def)

lemma file_parser_idem:
  "file_parser L F (file_parser L F p path) path = file_parser L F p path"
proof (cases "log_type (file_parser L F p path) = DEFAULT_LOG_TYPE")
  case False
  then show ?thesis by (rule file_parser_declared)
next
  case True
  let ?pa = "after_type_detection F p path"
  let ?ls = "take 10 (file_lines L F path)"
  have pa: "log_type ?pa = DEFAULT_LOG_TYPE"
    using True by (auto simp: file_parser_def after_content_detection_def split: if_splits)
  then have fp: "file_parser L F p path = detect_log_format_from_content L ?pa ?ls"
    by (simp add: file_parser_def after_content_detection_def)
  have dt: "detect_log_type F path = DEFAULT_LOG_TYPE"
    using pa by (auto simp: after_type_detection_def Let_def split: if_splits)
  have "after_type_detection F (file_parser L F p path) path = file_parser L F p path"
    using True dt by (simp add: after_type_detection_def)
  then have "file_parser L F (file_parser L F p path) path
      = detect_log_format_from_content L (file_parser L F p path) ?ls"
    using True by (simp add: file_parser_def after_content_detection_def)
  also have "\<dots> = file_parser L F p path"
    unfolding fp by (rule detect_idem)
  finally show ?thesis .
qed

text \<open>
  Claim C8, as the code has it. The parser object keeps its type, columns and separator
  between calls, and detection may change them: \<open>parse_file\<close> leaves them as they were
  when the object has a type other than the default, and a second call on the same file
  leaves them as the first did. In one call the parser is chosen once, by the type that
  the object has after detection, and is given all the lines.
\<close>

theorem parser_state_across_calls:
  "(log_type p \<noteq> DEFAULT_LOG_TYPE \<longrightarrow> snd (parse_file L F p path) = p)
   \<and> snd (parse_file L F (snd (parse_file L F p path)) path) = snd (parse_file L F p path)
   \<and> fst (parse_file L F p path)
       = Inr (case dispatch_file L (snd (parse_file L F p path)) (file_lines L F path) of
                Inr df \<Rightarrow> df
              | Inl e \<Rightarrow> DataFrame_columns (pcolumns (snd (parse_file L F p path))))"
  by (simp add: snd_parse_file fst_parse_file file_parser_declared file_parser_idem
        parse_file_try_def split: sum.splits)

lemma declared_virus: "log_type (LogParser (Some ''virus'')) \<noteq> DEFAULT_LOG_TYPE"
  by code_simp

theorem parser_state_across_calls_witness:
  "log_type (LogParser (Some ''virus'')) \<noteq> DEFAULT_LOG_TYPE
   \<and> snd (parse_file utc_lib (one_file ''v.log'' [virus_example]) (LogParser (Some ''virus''))
          ''v.log'') = LogParser (Some ''virus'')"
  using parser_state_across_calls [of "LogParser (Some ''virus'')" utc_lib
      "one_file ''v.log'' [virus_example]" "''v.log''"] declared_virus
  by simp

lemma undeclared_example:
  "after_type_detection (one_file ''v.log'' [virus_example]) (LogParser None) ''v.log''
     = LogParser (Some ''virus'')"
  by code_simp

text \<open>
  A parser object made without a type, after one call on a file with a virus line: its
  type is \<open>virus\<close> where it was \<open>browsing\<close>, and so are its columns.
\<close>

theorem parser_state_counterexample:
  "log_type (LogParser None) = ''browsing''
   \<and> snd (parse_file utc_lib (one_file ''v.log'' [virus_example]) (LogParser None) ''v.log'')
       = LogParser (Some ''virus'')
   \<and> log_type (LogParser (Some ''virus'')) = ''virus''
   \<and> pcolumns (LogParser (Some ''virus'')) \<noteq> pcolumns (LogParser None)"
proof (intro conjI)
  show "log_type (LogParser None) = ''browsing''" by (rule default_parser)
  show "snd (parse_file utc_lib (one_file ''v.log'' [virus_example]) (LogParser None) ''v.log'')
       = LogParser (Some ''virus'')"
    by (simp add: snd_parse_file file_parser_def undeclared_example
          after_content_detection_def virus_parser DEFAULT_LOG_TYPE_def)
  show "log_type (LogParser (Some ''virus'')) = ''virus''" by (rule virus_parser)
  show "pcolumns (LogParser (Some ''virus'')) \<noteq> pcolumns (LogParser None)" by code_simp
qed

text \<open>
  A second call of \<open>parse_file\<close> on the same path, with the parser object as the first
  call left it, gives the frame and the object of the first call; so does a call with a
  new object of the same declared type. A path is opened anew by every call.
\<close>

lemma parse_file_same_path:
  "parse_file L F (snd (parse_file L F p path)) path = parse_file L F p path
   \<and> fst (parse_file L F (snd (parse_file L F (LogParser declared) path)) path)
       = fst (parse_file L F (LogParser declared) path)"
proof -
  have "parse_file L F (snd (parse_file L F q path)) path = parse_file L F q path" for q
    by (simp add: parse_file_def parse_file_try_def Let_def file_parser_idem)
  then show ?thesis by simp
qed

text \<open>
  An upload has a read position, and a call moves it. The upload \<open>x.csv\<close> with the
  position at the start gives two lines; as the call leaves it, with the position at the
  end, it gives none: the extension names the format, so the header is not read and the
  position is not set back before the bytes are read.
\<close>

lemma consumed_upload_example:
  "uploaded_lines ascii_bytes (csv_upload 0) = ([''a,b'', ''1,2''], csv_upload 8)"
  "uploaded_lines ascii_bytes (csv_upload 8) = ([], csv_upload 8)"
  by code_simp+

lemma csv_parser_example:
  "log_type (LogParser (Some ''csv'')) = ''csv''"
  "detect_log_format_from_content utc_lib (LogParser (Some ''csv'')) [''a,b'', ''1,2'']
     = LogParser (Some ''csv'')"
  "detect_log_format_from_content utc_lib (LogParser (Some ''csv'')) []
     = LogParser (Some ''csv'')"
  "parse_csv_format utc_lib [''a,b'', ''1,2'']
     = Inr \<lparr> columns = [''a'', ''b''], rows = [ [(''a'', Str ''1''), (''b'', Str ''2'')] ] \<rparr>"
  "parse_csv_format utc_lib [] = Inr \<lparr> columns = [], rows = [] \<rparr>"
  by code_simp+

lemma csv_dispatch:
  "log_type p = ''csv'' \<Longrightarrow> dispatch_uploaded L p lines = parse_csv_format L lines"
  by (simp add: dispatch_uploaded_def)

lemma first_upload_call:
  "parse_uploaded_file utc_lib ascii_bytes (LogParser (Some ''csv'')) (csv_upload 0)
   = (Inr \<lparr> columns = [''a'', ''b''], rows = [ [(''a'', Str ''1''), (''b'', Str ''2'')] ] \<rparr>,
      LogParser (Some ''csv''), csv_upload 8)"
  by (simp add: parse_uploaded_file_def Let_def consumed_upload_example csv_parser_example
        csv_dispatch)

lemma second_upload_call:
  "parse_uploaded_file utc_lib ascii_bytes (LogParser (Some ''csv'')) (csv_upload 8)
   = (Inr \<lparr> columns = [], rows = [] \<rparr>, LogParser (Some ''csv''), csv_upload 8)"
  by (simp add: parse_uploaded_file_def Let_def consumed_upload_example csv_parser_example
        csv_dispatch)

text \<open>
  Claim C9, on the code. The upload \<open>x.csv\<close> with a header line and one data row, parsed
  twice by a parser object made for the declared type \<open>csv\<close>: the first call gives the
  frame of one record and leaves the read position at the end of the buffer; the second
  call, on the parser object and the upload as the first call left them, reads no bytes
  and gives the empty frame. A new parser object of the same declared type gives the
  empty frame too.
\<close>

theorem second_upload_parse_differs:
  "csv_upload 0
     = \<lparr> name = ''x.csv'', content = ''a,b'' @ nl @ ''1,2'' @ nl, position = 0 \<rparr>
   \<and> fst (parse_uploaded_file utc_lib ascii_bytes (LogParser (Some ''csv'')) (csv_upload 0))
     = Inr \<lparr> columns = [''a'', ''b''], rows = [ [(''a'', Str ''1''), (''b'', Str ''2'')] ] \<rparr>
   \<and> snd (snd (parse_uploaded_file utc_lib ascii_bytes (LogParser (Some ''csv'')) (csv_upload 0)))
     = \<lparr> name = ''x.csv'', content = ''a,b'' @ nl @ ''1,2'' @ nl, position = 8 \<rparr>
   \<and> fst (parse_uploaded_file utc_lib ascii_bytes
          (fst (snd (parse_uploaded_file utc_lib ascii_bytes (LogParser (Some ''csv''))
             (csv_upload 0))))
          (snd (snd (parse_uploaded_file utc_lib ascii_bytes (LogParser (Some ''csv''))
             (csv_upload 0)))))
     = Inr \<lparr> columns = [], rows = [] \<rparr>
   \<and> fst (parse_uploaded_file utc_lib ascii_bytes (LogParser (Some ''csv''))
          (snd (snd (parse_uploaded_file utc_lib ascii_bytes (LogParser (Some ''csv''))
             (csv_upload 0)))))
     = Inr \<lparr> columns = [], rows = [] \<rparr>"
proof (intro conjI)
  show "csv_upload 0
     = \<lparr> name = ''x.csv'', content = ''a,b'' @ nl @ ''1,2'' @ nl, position = 0 \<rparr>"
    by (rule csv_upload_def)
  show "snd (snd (parse_uploaded_file utc_lib ascii_bytes (LogParser (Some ''csv'')) (csv_upload 0)))
     = \<lparr> name = ''x.csv'', content = ''a,b'' @ nl @ ''1,2'' @ nl, position = 8 \<rparr>"
    unfolding first_upload_call by (simp only: snd_conv csv_upload_def)
qed (simp_all only: first_upload_call second_upload_call fst_conv snd_conv)

end
